theory Spec2Isabelle
  imports Main
begin

section \<open>Python string operations\<close>

text \<open>
  Python \<open>str\<close> values are modelled as \<^typ>\<open>string\<close>, restricted to ASCII text: case
  folding, whitespace and the regular-expression class \<open>\w\<close> are the ASCII ones. Each
  helper below is the \<open>str\<close> method of the same name.
\<close>

definition ascii_upper :: string where
  "ascii_upper = ''ABCDEFGHIJKLMNOPQRSTUVWXYZ''"

definition ascii_lower :: string where
  "ascii_lower = ''abcdefghijklmnopqrstuvwxyz''"

definition ascii_digits :: string where
  "ascii_digits = ''0123456789''"

definition lower_char :: "char \<Rightarrow> char" where
  "lower_char c = (case map_of (zip ascii_upper ascii_lower) c of Some d \<Rightarrow> d | None \<Rightarrow> c)"

definition lower :: "string \<Rightarrow> string" where
  "lower s = map lower_char s"

definition is_space :: "char \<Rightarrow> bool" where
  "is_space c = (c \<in> set [CHR 0x09, CHR 0x0A, CHR 0x0B, CHR 0x0C, CHR 0x0D,
                            CHR 0x1C, CHR 0x1D, CHR 0x1E, CHR 0x1F, CHR 0x20])"

definition strip :: "string \<Rightarrow> string" where
  "strip s = rev (dropWhile is_space (rev (dropWhile is_space s)))"

fun startswith :: "string \<Rightarrow> string \<Rightarrow> bool" where
  "startswith s [] = True"
| "startswith [] (p # ps) = False"
| "startswith (c # cs) (p # ps) = (c = p \<and> startswith cs ps)"

definition endswith :: "string \<Rightarrow> string \<Rightarrow> bool" where
  "endswith s p = startswith (rev s) (rev p)"

text \<open>\<open>s.split(sep)\<close> for a one-character separator: never the empty list.\<close>

fun split_on :: "char \<Rightarrow> string \<Rightarrow> string list" where
  "split_on sep [] = [[]]"
| "split_on sep (c # cs) =
     (if c = sep then [] # split_on sep cs
      else (case split_on sep cs of
              [] \<Rightarrow> [[c]]
            | p # ps \<Rightarrow> (c # p) # ps))"

fun join :: "string \<Rightarrow> string list \<Rightarrow> string" where
  "join sep [] = []"
| "join sep [x] = x"
| "join sep (x # y # ys) = x @ sep @ join sep (y # ys)"

text \<open>\<open>s.find(c)\<close>, \<open>s.find(c, start)\<close>, \<open>s.rfind(c)\<close> and \<open>s.count(c)\<close> for a character;
  Python's \<open>-1\<close> is \<^const>\<open>None\<close>.\<close>

definition find_char :: "char \<Rightarrow> string \<Rightarrow> nat option" where
  "find_char c s = (if c \<in> set s then Some (length (takeWhile (\<lambda>d. d \<noteq> c) s)) else None)"

definition find_from :: "char \<Rightarrow> nat \<Rightarrow> string \<Rightarrow> nat option" where
  "find_from c start s = map_option (\<lambda>i. i + start) (find_char c (drop start s))"

definition rfind :: "char \<Rightarrow> string \<Rightarrow> nat option" where
  "rfind c s =
     (if c \<in> set s then Some (length s - Suc (length (takeWhile (\<lambda>d. d \<noteq> c) (rev s))))
      else None)"

definition count_char :: "char \<Rightarrow> string \<Rightarrow> nat" where
  "count_char c s = length (filter (\<lambda>d. d = c) s)"

text \<open>\<open>s.find(sub)\<close> and \<open>sub in s\<close> for a substring.\<close>

fun find_sub :: "string \<Rightarrow> string \<Rightarrow> nat option" where
  "find_sub sub [] = (if sub = [] then Some 0 else None)"
| "find_sub sub (c # cs) =
     (if startswith (c # cs) sub then Some 0 else map_option Suc (find_sub sub cs))"

definition contains :: "string \<Rightarrow> string \<Rightarrow> bool" where
  "contains s sub = (find_sub sub s \<noteq> None)"

text \<open>Truthiness of an optional string: \<open>None\<close> and \<open>""\<close> are falsy.\<close>

fun truthy :: "string option \<Rightarrow> bool" where
  "truthy None = False"
| "truthy (Some s) = (s \<noteq> [])"


section \<open>The standard library: \<open>urlparse(url).netloc\<close>\<close>

text \<open>
  \<open>urllib.parse.urlparse\<close> belongs to the Python standard library, not to the repository.
  Its \<open>netloc\<close> component is modelled after CPython's \<open>urlsplit\<close>: leading C0 control
  characters and spaces are stripped, tab, carriage return and line feed are removed, a
  leading scheme (a letter followed by letters, digits, \<open>+\<close>, \<open>-\<close>, \<open>.\<close> up to the first
  colon) is cut off, and when the rest starts with \<open>//\<close> the netloc runs up to the first
  of \<open>/\<close>, \<open>?\<close>, \<open>#\<close>. A netloc with only one of \<open>[\<close> and \<open>]\<close> raises \<open>ValueError\<close>, which
  is \<^const>\<open>None\<close> here. This is \<open>urlsplit\<close> as of CPython 3.11 on ASCII input; the
  validation of a bracketed IPv6 host that later releases add is left out. The general
  theorems below never unfold this definition.
\<close>

definition is_c0_or_space :: "char \<Rightarrow> bool" where
  "is_c0_or_space c = ((of_char c :: nat) \<le> 32)"

definition scheme_chars :: string where
  "scheme_chars = ascii_lower @ ascii_upper @ ascii_digits @ ''+-.''"

definition strip_scheme :: "string \<Rightarrow> string" where
  "strip_scheme url =
     (case find_char CHR '':'' url of
        None \<Rightarrow> url
      | Some i \<Rightarrow>
          if 0 < i \<and> hd url \<in> set (ascii_lower @ ascii_upper)
               \<and> list_all (\<lambda>c. c \<in> set scheme_chars) (take i url)
          then drop (Suc i) url else url)"

definition urlparse_netloc :: "string \<Rightarrow> string option" where
  "urlparse_netloc url0 =
     (let url1 = dropWhile is_c0_or_space url0;
          url2 = filter (\<lambda>c. c \<notin> set [CHR 0x09, CHR 0x0D, CHR 0x0A]) url1;
          url3 = strip_scheme url2
      in if take 2 url3 = ''//'' then
           (let netloc = takeWhile (\<lambda>c. c \<notin> set ''/?#'') (drop 2 url3) in
              if (CHR ''['' \<in> set netloc) \<noteq> (CHR '']'' \<in> set netloc) then None
              else Some netloc)
         else Some [])"

text \<open>
  The idiom shared by \<open>should_block\<close>, \<open>_pattern_matches\<close> and \<open>_handle_route\<close>:
  \<open>urlparse(url).netloc.lower()\<close> with everything from the first colon removed.
  \<^const>\<open>None\<close> stands for the exception that each caller catches.
\<close>

definition url_host :: "string \<Rightarrow> string option" where
  "url_host url =
     (case urlparse_netloc url of
        None \<Rightarrow> None
      | Some netloc \<Rightarrow>
          (let hostname = lower netloc in
             Some (if CHR '':'' \<in> set hostname then hd (split_on CHR '':'' hostname)
                   else hostname)))"


section \<open>Data model (parser.py)\<close>

datatype RequestType =
  SCRIPT | IMAGE | STYLESHEET | FONT | MEDIA | DOCUMENT | SUBDOCUMENT
  | XMLHTTPREQUEST | WEBSOCKET | OTHER

definition REQUEST_TYPE_MAP :: "string \<Rightarrow> RequestType option" where
  "REQUEST_TYPE_MAP = map_of
     [(''script'', SCRIPT), (''image'', IMAGE), (''stylesheet'', STYLESHEET),
      (''font'', FONT), (''media'', MEDIA), (''document'', DOCUMENT),
      (''subdocument'', SUBDOCUMENT), (''xmlhttprequest'', XMLHTTPREQUEST),
      (''xhr'', XMLHTTPREQUEST), (''websocket'', WEBSOCKET), (''other'', OTHER),
      (''object'', OTHER), (''ping'', OTHER)]"

text \<open>
  The dataclass \<open>NetworkFilter\<close>. The private field \<open>_regex\<close> only memoises
  \<open>_pattern_to_regex(pattern, is_regex)\<close> and is recomputed on use in the model.
\<close>

record NetworkFilter =
  raw :: string
  pattern :: string
  is_exception :: bool
  is_hostname_anchor :: bool
  is_left_anchor :: bool
  is_right_anchor :: bool
  is_plain :: bool
  is_regex :: bool
  hostname :: "string option"
  third_party :: "bool option"
  request_types :: "RequestType set"
  excluded_types :: "RequestType set"
  domains :: "string set"
  excluded_domains :: "string set"
  redirect :: "string option"

text \<open>
  The dataclasses \<open>CosmeticFilter\<close> and \<open>ScriptletFilter\<close>; their fields carry a prefix
  because field names are global in a theory.
\<close>

record CosmeticFilter =
  c_raw :: string
  selector :: string
  c_is_exception :: bool
  c_domains :: "string set"
  c_excluded_domains :: "string set"

record ScriptletFilter =
  s_raw :: string
  scriptlet_name :: string
  args :: "string list"
  s_domains :: "string set"
  s_excluded_domains :: "string set"


section \<open>Compiled patterns (parser.py, \<open>_pattern_to_regex\<close>)\<close>

text \<open>
  A translated pattern is a sequence of the pieces \<open>_pattern_to_regex\<close> emits:
  \<open>.*\<close> is \<open>AnyStar\<close>, the separator class \<open>(?:[^\w\-.]|$)\<close> is \<open>Sep\<close>, \<open>^\<close> is \<open>Bol\<close>,
  \<open>$\<close> is \<open>Eol\<close>, and every other character, escaped or not, is a literal matched
  without regard to case (\<open>re.IGNORECASE\<close>). A filter written as \<open>/regex/\<close> is handed to
  the \<open>re\<close> library unchanged: \<open>Raw\<close> keeps its source.
\<close>

datatype re_tok = Lit char | AnyStar | Sep | Bol | Eol

datatype regex = Raw string | Toks "re_tok list"

fun escape_from :: "bool \<Rightarrow> string \<Rightarrow> re_tok list" where
  "escape_from first [] = []"
| "escape_from first (c # cs) =
     (if c = CHR ''*'' then [AnyStar]
      else if c = CHR ''^'' then [Sep]
      else if c = CHR ''|'' then
        (if first then [Bol] else if cs = [] then [Eol] else [Lit c])
      else [Lit c]) @ escape_from False cs"

definition pattern_to_regex :: "string \<Rightarrow> bool \<Rightarrow> regex" where
  "pattern_to_regex pat is_re =
     (if is_re then
        Raw (if startswith pat ''/'' \<and> endswith pat ''/'' then butlast (tl pat) else pat)
      else Toks (escape_from True pat))"

definition get_regex :: "NetworkFilter \<Rightarrow> regex" where
  "get_regex f = pattern_to_regex (pattern f) (is_regex f)"

definition is_word :: "char \<Rightarrow> bool" where
  "is_word c = (c \<in> set (ascii_lower @ ascii_upper @ ascii_digits @ ''_''))"

definition sep_char :: "char \<Rightarrow> bool" where
  "sep_char c = (\<not> is_word c \<and> c \<noteq> CHR ''-'' \<and> c \<noteq> CHR ''.'')"

definition at_end :: "string \<Rightarrow> bool" where
  "at_end s = (s = [] \<or> s = [CHR 0x0A])"

text \<open>
  \<open>re_match ts at0 s\<close>: the pieces \<open>ts\<close> match a prefix of the rest \<open>s\<close> of the subject;
  \<open>at0\<close> says that the rest is the whole subject. \<open>.\<close> does not match a line feed and
  \<open>$\<close> matches at the end or before a final line feed, as in Python without flags
  other than \<open>IGNORECASE\<close>.
\<close>

fun re_match :: "re_tok list \<Rightarrow> bool \<Rightarrow> string \<Rightarrow> bool" where
  "re_match [] at0 s = True"
| "re_match (Lit c # ts) at0 [] = False"
| "re_match (Lit c # ts) at0 (d # s) = (lower_char c = lower_char d \<and> re_match ts False s)"
| "re_match (AnyStar # ts) at0 [] = re_match ts at0 []"
| "re_match (AnyStar # ts) at0 (d # s) =
     (re_match ts at0 (d # s) \<or> (d \<noteq> CHR 0x0A \<and> re_match (AnyStar # ts) False s))"
| "re_match (Sep # ts) at0 [] = re_match ts at0 []"
| "re_match (Sep # ts) at0 (d # s) =
     ((sep_char d \<and> re_match ts False s) \<or> (at_end (d # s) \<and> re_match ts at0 (d # s)))"
| "re_match (Bol # ts) at0 s = (at0 \<and> re_match ts at0 s)"
| "re_match (Eol # ts) at0 s = (at_end s \<and> re_match ts at0 s)"

fun re_search_from :: "re_tok list \<Rightarrow> bool \<Rightarrow> string \<Rightarrow> bool" where
  "re_search_from ts at0 [] = re_match ts at0 []"
| "re_search_from ts at0 (d # s) = (re_match ts at0 (d # s) \<or> re_search_from ts False s)"

text \<open>
  \<open>regex.search(url) is not None\<close> inside \<open>try\<close>/\<open>except\<close>. The \<open>re\<close> library is a
  parameter for raw patterns: \<open>re_lib p s\<close> is \<^const>\<open>None\<close> when compiling \<open>p\<close> raises
  and otherwise tells whether \<open>p\<close> is found in \<open>s\<close>. A translated pattern always
  compiles, all metacharacters being escaped.
\<close>

definition regex_search :: "(string \<Rightarrow> string \<Rightarrow> bool option) \<Rightarrow> regex \<Rightarrow> string \<Rightarrow> bool" where
  "regex_search re_lib r url =
     (case r of
        Toks ts \<Rightarrow> re_search_from ts True url
      | Raw p \<Rightarrow> (case re_lib p url of None \<Rightarrow> False | Some b \<Rightarrow> b))"


section \<open>Parsing network filters (parser.py)\<close>

definition extract_hostname_from_pattern :: "string \<Rightarrow> string option" where
  "extract_hostname_from_pattern pat =
     (if pat = [] then None
      else
        (let hostname = takeWhile (\<lambda>c. c \<notin> set ''^/*?$'') pat in
           if hostname \<noteq> [] \<and> CHR ''.'' \<in> set hostname \<and> \<not> startswith hostname ''.''
           then Some (lower hostname) else None))"

text \<open>
  The loop over domain tokens that \<open>_parse_domains\<close>, \<open>parse_cosmetic_filter\<close> and
  \<open>parse_scriptlet_filter\<close> each write out: trim and lower-case the token, skip it when
  empty, and file it under the excluded domains when it starts with \<open>~\<close>.
\<close>

definition add_domain :: "string set \<times> string set \<Rightarrow> string \<Rightarrow> string set \<times> string set" where
  "add_domain acc d0 =
     (let d = lower (strip d0) in
        if d = [] then acc
        else if startswith d ''~'' then (fst acc, insert (tl d) (snd acc))
        else (insert d (fst acc), snd acc))"

definition collect_domains :: "string list \<Rightarrow> string set \<times> string set" where
  "collect_domains ds = foldl add_domain ({}, {}) ds"

definition parse_domains :: "string \<Rightarrow> string set \<times> string set" where
  "parse_domains domain_str = collect_domains (split_on CHR ''|'' domain_str)"

text \<open>One round of the loop of \<open>_parse_modifiers\<close>, which updates the filter in place.\<close>

definition apply_modifier :: "NetworkFilter \<Rightarrow> string \<Rightarrow> NetworkFilter" where
  "apply_modifier f m0 =
     (let m1 = lower (strip m0) in
        if m1 = [] then f
        else
          (let negated = startswith m1 ''~'';
               modifier = (if negated then tl m1 else m1)
           in if startswith modifier ''domain='' then
                (let de = parse_domains (drop 7 modifier) in
                   f\<lparr>domains := domains f \<union> fst de,
                     excluded_domains := excluded_domains f \<union> snd de\<rparr>)
              else if startswith modifier ''redirect='' then
                f\<lparr>redirect := Some (drop 9 modifier)\<rparr>
              else if startswith modifier ''redirect-rule='' then
                f\<lparr>redirect := Some (drop 14 modifier)\<rparr>
              else if modifier = ''third-party'' \<or> modifier = ''3p'' then
                f\<lparr>third_party := Some (\<not> negated)\<rparr>
              else if modifier = ''first-party'' \<or> modifier = ''1p'' then
                f\<lparr>third_party := Some negated\<rparr>
              else
                (case REQUEST_TYPE_MAP modifier of
                   None \<Rightarrow> f
                 | Some req_type \<Rightarrow>
                     if negated then f\<lparr>excluded_types := insert req_type (excluded_types f)\<rparr>
                     else f\<lparr>request_types := insert req_type (request_types f)\<rparr>)))"

definition parse_modifiers :: "string \<Rightarrow> NetworkFilter \<Rightarrow> NetworkFilter" where
  "parse_modifiers modifier_str filter_obj =
     foldl apply_modifier filter_obj (split_on CHR '','' modifier_str)"

text \<open>
  The first half of \<open>parse_network_filter\<close>: the line without its leading \<open>@@\<close>, and the
  position of the \<open>$\<close> that starts the modifiers. In the regex branch the line starts
  with \<open>/\<close>, so \<open>rfind\<close> finds a slash.
\<close>

definition strip_exception :: "string \<Rightarrow> string" where
  "strip_exception line = (if startswith line ''@@'' then drop 2 line else line)"

definition modifier_pos :: "string \<Rightarrow> nat option" where
  "modifier_pos line =
     (if CHR ''$'' \<in> set line then
        (if startswith line ''/'' \<and> 2 \<le> count_char CHR ''/'' line then
           (case rfind CHR ''/'' line of
              None \<Rightarrow> None
            | Some last_slash \<Rightarrow> find_from CHR ''$'' last_slash line)
         else rfind CHR ''$'' line)
      else None)"

definition pattern_part :: "string \<Rightarrow> string" where
  "pattern_part line =
     (case modifier_pos line of None \<Rightarrow> line | Some p \<Rightarrow> take p line)"

definition modifier_part :: "string \<Rightarrow> string" where
  "modifier_part line =
     (case modifier_pos line of None \<Rightarrow> [] | Some p \<Rightarrow> drop (Suc p) line)"

definition parse_network_filter :: "string \<Rightarrow> NetworkFilter option" where
  "parse_network_filter line0 =
     (let exc = startswith line0 ''@@'';
          line1 = strip_exception line0;
          modifier_str = modifier_part line1;
          line2 = pattern_part line1
      in if line2 = [] then None
         else
           (let hostname_anchor = startswith line2 ''||'';
                line3 = (if hostname_anchor then drop 2 line2 else line2);
                left_anchor = (\<not> hostname_anchor \<and> startswith line3 ''|'');
                line4 = (if left_anchor then drop 1 line3 else line3);
                right_anchor = endswith line4 ''|'';
                line5 = (if right_anchor then butlast line4 else line4);
                regex_flag = (startswith line5 ''/'' \<and> endswith line5 ''/'' \<and> 2 < length line5);
                plain = (\<not> regex_flag \<and> CHR ''*'' \<notin> set line5 \<and> CHR ''^'' \<notin> set line5);
                host = (if hostname_anchor then extract_hostname_from_pattern line5 else None);
                filter_obj = \<lparr>raw = line5, pattern = line5, is_exception = exc,
                              is_hostname_anchor = hostname_anchor,
                              is_left_anchor = left_anchor, is_right_anchor = right_anchor,
                              is_plain = plain, is_regex = regex_flag, hostname = host,
                              third_party = None, request_types = {}, excluded_types = {},
                              domains = {}, excluded_domains = {}, redirect = None\<rparr>
            in Some (if modifier_str \<noteq> [] then parse_modifiers modifier_str filter_obj
                     else filter_obj)))"


section \<open>The network matcher (matcher.py)\<close>

fun tails_ne :: "'a list \<Rightarrow> 'a list list" where
  "tails_ne [] = []"
| "tails_ne (x # xs) = (x # xs) # tails_ne xs"

definition get_hostname_variants :: "string \<Rightarrow> string list" where
  "get_hostname_variants h = map (join ''.'') (tails_ne (split_on CHR ''.'' h))"

definition get_domain :: "string \<Rightarrow> string" where
  "get_domain h =
     (let parts = split_on CHR ''.'' h in
        if 2 \<le> length parts then join ''.'' (drop (length parts - 2) parts) else h)"

definition is_third_party :: "string \<Rightarrow> string option \<Rightarrow> bool" where
  "is_third_party url_hostname source_hostname =
     (case source_hostname of
        None \<Rightarrow> False
      | Some src \<Rightarrow> if src = [] then False else get_domain url_hostname \<noteq> get_domain src)"

definition domain_matches :: "string \<Rightarrow> string set \<Rightarrow> string set \<Rightarrow> bool" where
  "domain_matches h included excluded =
     (if included = {} \<and> excluded = {} then True
      else
        (let hostname_variants = get_hostname_variants (lower h) in
           if list_ex (\<lambda>v. v \<in> excluded) hostname_variants then False
           else if included = {} then True
           else list_ex (\<lambda>v. v \<in> included) hostname_variants))"

record NetworkFilterMatcher =
  hostname_index :: "string \<Rightarrow> NetworkFilter list option"
  exception_hostname_index :: "string \<Rightarrow> NetworkFilter list option"
  generic_filters :: "NetworkFilter list"
  generic_exceptions :: "NetworkFilter list"
  total_filters :: nat
  hostname_indexed :: nat

definition new_matcher :: NetworkFilterMatcher where
  "new_matcher = \<lparr>hostname_index = Map.empty, exception_hostname_index = Map.empty,
                   generic_filters = [], generic_exceptions = [],
                   total_filters = 0, hostname_indexed = 0\<rparr>"

text \<open>\<open>index.get(key, [])\<close>, and appending to the list under a key, created when missing.\<close>

definition index_get :: "(string \<Rightarrow> 'a list option) \<Rightarrow> string \<Rightarrow> 'a list" where
  "index_get idx k = (case idx k of None \<Rightarrow> [] | Some fs \<Rightarrow> fs)"

definition index_append :: "(string \<Rightarrow> 'a list option) \<Rightarrow> string \<Rightarrow> 'a \<Rightarrow> (string \<Rightarrow> 'a list option)" where
  "index_append idx k f = idx(k \<mapsto> index_get idx k @ [f])"

definition add_filter :: "NetworkFilterMatcher \<Rightarrow> NetworkFilter \<Rightarrow> NetworkFilterMatcher" where
  "add_filter m0 f =
     (let m = m0\<lparr>total_filters := total_filters m0 + 1\<rparr> in
        if is_hostname_anchor f \<and> truthy (hostname f) then
          (case hostname f of
             None \<Rightarrow> m
           | Some h \<Rightarrow>
               (if is_exception f then
                  m\<lparr>exception_hostname_index := index_append (exception_hostname_index m) h f,
                    hostname_indexed := hostname_indexed m + 1\<rparr>
                else
                  m\<lparr>hostname_index := index_append (hostname_index m) h f,
                    hostname_indexed := hostname_indexed m + 1\<rparr>))
        else if is_exception f then m\<lparr>generic_exceptions := generic_exceptions m @ [f]\<rparr>
        else m\<lparr>generic_filters := generic_filters m @ [f]\<rparr>)"

definition add_filters :: "NetworkFilterMatcher \<Rightarrow> NetworkFilter list \<Rightarrow> NetworkFilterMatcher" where
  "add_filters m fs = foldl add_filter m fs"

definition pattern_matches :: "(string \<Rightarrow> string \<Rightarrow> bool option) \<Rightarrow> NetworkFilter \<Rightarrow> string \<Rightarrow> bool" where
  "pattern_matches re_lib f url =
     (let host_ok =
            (if is_hostname_anchor f then
               (let h = (case hostname f of None \<Rightarrow> [] | Some x \<Rightarrow> x) in
                  case url_host url of
                    None \<Rightarrow> False
                  | Some uh \<Rightarrow> uh = h \<or> endswith uh (''.'' @ h))
             else True)
      in if \<not> host_ok then False
         else if is_plain f then
           (let pat =
                  (case hostname f of
                     None \<Rightarrow> pattern f
                   | Some h \<Rightarrow>
                       if is_hostname_anchor f \<and> h \<noteq> [] then
                         (if startswith (pattern f) h then drop (length h) (pattern f)
                          else pattern f)
                       else pattern f)
            in if pat \<noteq> [] then contains (lower url) (lower pat) else True)
         else regex_search re_lib (get_regex f) url)"

definition filter_matches ::
  "(string \<Rightarrow> string \<Rightarrow> bool option) \<Rightarrow> NetworkFilter \<Rightarrow> string \<Rightarrow> string
     \<Rightarrow> RequestType option \<Rightarrow> string option \<Rightarrow> bool \<Rightarrow> bool" where
  "filter_matches re_lib f url host request_type source_hostname tp =
     (if third_party f \<noteq> None \<and> third_party f \<noteq> Some tp then False
      else if request_types f \<noteq> {}
              \<and> (case request_type of None \<Rightarrow> True | Some t \<Rightarrow> t \<notin> request_types f)
           then False
      else if (case request_type of None \<Rightarrow> False | Some t \<Rightarrow> t \<in> excluded_types f)
           then False
      else if (case source_hostname of
                 None \<Rightarrow> False
               | Some src \<Rightarrow> src \<noteq> [] \<and> \<not> domain_matches src (domains f) (excluded_domains f))
           then False
      else pattern_matches re_lib f url)"

text \<open>The two nested loops of \<open>_find_blocking_filter\<close> and \<open>_find_exception\<close>.\<close>

fun find_in_index ::
  "(NetworkFilter \<Rightarrow> bool) \<Rightarrow> (string \<Rightarrow> NetworkFilter list option) \<Rightarrow> string list
     \<Rightarrow> NetworkFilter option" where
  "find_in_index P idx [] = None"
| "find_in_index P idx (v # vs) =
     (case List.find P (index_get idx v) of
        Some f \<Rightarrow> Some f
      | None \<Rightarrow> find_in_index P idx vs)"

definition find_blocking_filter ::
  "(string \<Rightarrow> string \<Rightarrow> bool option) \<Rightarrow> NetworkFilterMatcher \<Rightarrow> string \<Rightarrow> string
     \<Rightarrow> RequestType option \<Rightarrow> string option \<Rightarrow> bool \<Rightarrow> NetworkFilter option" where
  "find_blocking_filter re_lib m url host request_type source_hostname tp =
     (let P = (\<lambda>f. filter_matches re_lib f url host request_type source_hostname tp) in
        case find_in_index P (hostname_index m) (get_hostname_variants host) of
          Some f \<Rightarrow> Some f
        | None \<Rightarrow> List.find P (generic_filters m))"

definition find_exception ::
  "(string \<Rightarrow> string \<Rightarrow> bool option) \<Rightarrow> NetworkFilterMatcher \<Rightarrow> string \<Rightarrow> string
     \<Rightarrow> RequestType option \<Rightarrow> string option \<Rightarrow> bool \<Rightarrow> NetworkFilter option" where
  "find_exception re_lib m url host request_type source_hostname tp =
     (let P = (\<lambda>f. filter_matches re_lib f url host request_type source_hostname tp) in
        case find_in_index P (exception_hostname_index m) (get_hostname_variants host) of
          Some f \<Rightarrow> Some f
        | None \<Rightarrow> List.find P (generic_exceptions m))"

record MatchResult =
  blocked :: bool
  matched :: "NetworkFilter option"
  mr_redirect :: "string option"

definition should_block ::
  "(string \<Rightarrow> string \<Rightarrow> bool option) \<Rightarrow> NetworkFilterMatcher \<Rightarrow> string
     \<Rightarrow> RequestType option \<Rightarrow> string option \<Rightarrow> MatchResult" where
  "should_block re_lib m url request_type source_hostname =
     (case url_host url of
        None \<Rightarrow> \<lparr>blocked = False, matched = None, mr_redirect = None\<rparr>
      | Some host \<Rightarrow>
          (let tp = is_third_party host source_hostname in
             case find_blocking_filter re_lib m url host request_type source_hostname tp of
               None \<Rightarrow> \<lparr>blocked = False, matched = None, mr_redirect = None\<rparr>
             | Some blocking_filter \<Rightarrow>
                 (case find_exception re_lib m url host request_type source_hostname tp of
                    Some exception \<Rightarrow>
                      \<lparr>blocked = False, matched = Some exception, mr_redirect = None\<rparr>
                  | None \<Rightarrow>
                      if truthy (redirect blocking_filter) then
                        \<lparr>blocked = True, matched = Some blocking_filter,
                          mr_redirect = redirect blocking_filter\<rparr>
                      else
                        \<lparr>blocked = True, matched = Some blocking_filter,
                          mr_redirect = None\<rparr>)))"

text \<open>
  The three decisions a \<open>MatchResult\<close> stands for, read off as \<open>_handle_route\<close> reads
  them: not \<open>blocked\<close> is Allow, \<open>blocked\<close> with a non-empty \<open>redirect\<close> is Redirect,
  \<open>blocked\<close> otherwise is Block.
\<close>

datatype decision = Allow | Block | Redirect string

definition decision_of :: "MatchResult \<Rightarrow> decision" where
  "decision_of r =
     (if \<not> blocked r then Allow
      else (case mr_redirect r of
              None \<Rightarrow> Block
            | Some n \<Rightarrow> if n = [] then Block else Redirect n))"


section \<open>Parsing cosmetic filters (parser.py)\<close>

definition procedural_prefixes :: "string list" where
  "procedural_prefixes = ['':has('', '':xpath('', '':not('', '':matches-css('', ''+js('']"

text \<open>
  \<open>line.split(sep, 1)\<close> cuts at the first occurrence of \<open>sep\<close>, which is in the line
  when the split is reached, so that the two parts always exist.
\<close>

definition parse_cosmetic_filter :: "string \<Rightarrow> CosmeticFilter option" where
  "parse_cosmetic_filter line =
     (let exc = contains line ''#@#'' in
        if \<not> exc \<and> \<not> contains line ''##'' then None
        else
          (let sep = (if exc then ''#@#'' else ''##'') in
             case find_sub sep line of
               None \<Rightarrow> None
             | Some i \<Rightarrow>
                 (let domain_part = take i line;
                      sel = strip (drop (i + length sep) line)
                  in if sel = [] then None
                     else if list_ex (\<lambda>prefix. startswith sel prefix) procedural_prefixes
                     then None
                     else
                       (let de = (if domain_part \<noteq> []
                                  then collect_domains (split_on CHR '','' domain_part)
                                  else ({}, {}))
                        in Some \<lparr>c_raw = line, selector = sel, c_is_exception = exc,
                                  c_domains = fst de, c_excluded_domains = snd de\<rparr>))))"


section \<open>The cosmetic handler (cosmetic.py)\<close>

text \<open>\<open>_domain_matches\<close> of cosmetic.py; its \<open>_get_hostname_variants\<close> is the matcher's.\<close>

definition c_domain_matches :: "string \<Rightarrow> string set \<Rightarrow> string set \<Rightarrow> bool" where
  "c_domain_matches h included excluded =
     (let hostname_variants = get_hostname_variants (lower h) in
        if list_ex (\<lambda>v. v \<in> excluded) hostname_variants then False
        else if included = {} then True
        else list_ex (\<lambda>v. v \<in> included) hostname_variants)"

record CosmeticFilterHandler =
  global_filters :: "CosmeticFilter list"
  global_exceptions :: "CosmeticFilter list"
  domain_filters :: "string \<Rightarrow> CosmeticFilter list option"
  domain_exceptions :: "string \<Rightarrow> CosmeticFilter list option"
  c_total_filters :: nat

definition new_cosmetic_handler :: CosmeticFilterHandler where
  "new_cosmetic_handler = \<lparr>global_filters = [], global_exceptions = [],
                            domain_filters = Map.empty, domain_exceptions = Map.empty,
                            c_total_filters = 0\<rparr>"

text \<open>
  \<open>for domain in f.domains: index[domain].append(f)\<close>: the domains of a set are
  distinct keys, so the order of the iteration does not show in the result.
\<close>

definition index_append_all ::
  "(string \<Rightarrow> 'a list option) \<Rightarrow> string set \<Rightarrow> 'a \<Rightarrow> (string \<Rightarrow> 'a list option)" where
  "index_append_all idx ds f d = (if d \<in> ds then Some (index_get idx d @ [f]) else idx d)"

definition c_add_filter :: "CosmeticFilterHandler \<Rightarrow> CosmeticFilter \<Rightarrow> CosmeticFilterHandler" where
  "c_add_filter h0 f =
     (let h = h0\<lparr>c_total_filters := c_total_filters h0 + 1\<rparr> in
        if c_domains f = {} \<and> c_excluded_domains f = {} then
          (if c_is_exception f then h\<lparr>global_exceptions := global_exceptions h @ [f]\<rparr>
           else h\<lparr>global_filters := global_filters h @ [f]\<rparr>)
        else if c_domains f \<noteq> {} then
          (if c_is_exception f then
             h\<lparr>domain_exceptions := index_append_all (domain_exceptions h) (c_domains f) f\<rparr>
           else
             h\<lparr>domain_filters := index_append_all (domain_filters h) (c_domains f) f\<rparr>)
        else if c_is_exception f then h\<lparr>global_exceptions := global_exceptions h @ [f]\<rparr>
        else h\<lparr>global_filters := global_filters h @ [f]\<rparr>)"

definition c_add_filters :: "CosmeticFilterHandler \<Rightarrow> CosmeticFilter list \<Rightarrow> CosmeticFilterHandler" where
  "c_add_filters h fs = foldl c_add_filter h fs"

definition get_selectors_for_domain :: "CosmeticFilterHandler \<Rightarrow> string \<Rightarrow> string list" where
  "get_selectors_for_domain h hostname0 =
     (let hostname = lower hostname0;
          variants = get_hostname_variants hostname;
          applies = (\<lambda>f. c_domain_matches hostname (c_domains f) (c_excluded_domains f));
          exception_selectors =
            set (map selector (filter applies (global_exceptions h)))
            \<union> set (map selector
                    (filter applies (concat (map (index_get (domain_exceptions h)) variants))));
          wanted = (\<lambda>f. selector f \<notin> exception_selectors \<and> applies f)
      in map selector (filter wanted (global_filters h))
         @ map selector
             (filter wanted (concat (map (index_get (domain_filters h)) variants))))"

definition batch_size :: nat where
  "batch_size = 100"

text \<open>
  The test that skips a selector: \<open>'"' in sel or "'" in sel and "\\" not in sel\<close>, where
  \<open>and\<close> binds tighter than \<open>or\<close>.
\<close>

definition skip_selector :: "string \<Rightarrow> bool" where
  "skip_selector sel =
     (CHR 0x22 \<in> set sel \<or> (CHR 0x27 \<in> set sel \<and> CHR 0x5C \<notin> set sel))"

definition css_rule :: "string list \<Rightarrow> string" where
  "css_rule safe_selectors = join '', '' safe_selectors @ '' { display: none !important; }''"

text \<open>The loop \<open>for i in range(0, len(selectors), batch_size)\<close> with its accumulator.\<close>

function css_loop :: "string list \<Rightarrow> nat \<Rightarrow> string list \<Rightarrow> string list" where
  "css_loop selectors i css_rules =
     (if i < length selectors then
        (let batch = take batch_size (drop i selectors);
             safe_selectors = filter (\<lambda>sel. \<not> skip_selector sel) batch
         in css_loop selectors (i + batch_size)
              (if safe_selectors \<noteq> [] then css_rules @ [css_rule safe_selectors]
               else css_rules))
      else css_rules)"
  by pat_completeness auto
termination
  by (relation "measure (\<lambda>(selectors, i, css_rules). length selectors - i)")
     (auto simp: batch_size_def)

declare css_loop.simps [simp del]

definition css_of_selectors :: "string list \<Rightarrow> string" where
  "css_of_selectors selectors =
     (if selectors = [] then [] else join [CHR 0x0A] (css_loop selectors 0 []))"

definition get_css_for_domain :: "CosmeticFilterHandler \<Rightarrow> string \<Rightarrow> string" where
  "get_css_for_domain h host = css_of_selectors (get_selectors_for_domain h host)"


section \<open>The scriptlet handler (scriptlets.py)\<close>

definition SCRIPTLET_ALIASES :: "string \<Rightarrow> string option" where
  "SCRIPTLET_ALIASES = map_of
     [(''aopr'', ''abort-on-property-read''), (''aopw'', ''abort-on-property-write''),
      (''set'', ''set-constant''), (''rc'', ''remove-class''),
      (''nostif'', ''no-setTimeout-if''), (''nosiif'', ''no-setInterval-if''),
      (''aeld'', ''addEventListener-defuser''),
      (''nano-setInterval-booster'', ''no-setInterval-if''),
      (''nano-setTimeout-booster'', ''no-setTimeout-if'')]"

text \<open>\<open>_domain_matches\<close> of scriptlets.py: no included domain, no match.\<close>

definition s_domain_matches :: "string \<Rightarrow> string set \<Rightarrow> string set \<Rightarrow> bool" where
  "s_domain_matches h included excluded =
     (let hostname_variants = get_hostname_variants (lower h) in
        if list_ex (\<lambda>v. v \<in> excluded) hostname_variants then False
        else if included = {} then False
        else list_ex (\<lambda>v. v \<in> included) hostname_variants)"

record ScriptletHandler =
  domain_scriptlets :: "string \<Rightarrow> ScriptletFilter list option"
  total_scriptlets :: nat

definition new_scriptlet_handler :: ScriptletHandler where
  "new_scriptlet_handler = \<lparr>domain_scriptlets = Map.empty, total_scriptlets = 0\<rparr>"

definition s_add_filter :: "ScriptletHandler \<Rightarrow> ScriptletFilter \<Rightarrow> ScriptletHandler" where
  "s_add_filter h f =
     h\<lparr>total_scriptlets := total_scriptlets h + 1,
       domain_scriptlets := index_append_all (domain_scriptlets h) (s_domains f) f\<rparr>"

definition s_add_filters :: "ScriptletHandler \<Rightarrow> ScriptletFilter list \<Rightarrow> ScriptletHandler" where
  "s_add_filters h fs = foldl s_add_filter h fs"

text \<open>
  The filters the loop of \<open>get_scripts_for_domain\<close> gets past the domain check, in the
  order it meets them, and the script it builds for one of them. The table \<open>SCRIPTLETS\<close>
  of JavaScript templates is static text and a parameter here.
\<close>

definition selected_scriptlets :: "ScriptletHandler \<Rightarrow> string \<Rightarrow> ScriptletFilter list" where
  "selected_scriptlets h hostname0 =
     (let hostname = lower hostname0 in
        filter (\<lambda>f. s_domain_matches hostname (s_domains f) (s_excluded_domains f))
          (concat (map (index_get (domain_scriptlets h)) (get_hostname_variants hostname))))"

definition script_of :: "(string \<Rightarrow> string option) \<Rightarrow> ScriptletFilter \<Rightarrow> string option" where
  "script_of SCRIPTLETS f =
     (let name = (case SCRIPTLET_ALIASES (scriptlet_name f) of
                    None \<Rightarrow> scriptlet_name f
                  | Some canonical \<Rightarrow> canonical)
      in case SCRIPTLETS name of
           None \<Rightarrow> None
         | Some impl \<Rightarrow>
             Some (''('' @ impl @ '')('' @
                   join '', '' (map (\<lambda>arg. [CHR 0x27] @ arg @ [CHR 0x27]) (args f)) @ '');''))"

definition get_scripts_for_domain ::
  "(string \<Rightarrow> string option) \<Rightarrow> ScriptletHandler \<Rightarrow> string \<Rightarrow> string list" where
  "get_scripts_for_domain SCRIPTLETS h host =
     List.map_filter (script_of SCRIPTLETS) (selected_scriptlets h host)"


section \<open>Redirect resources (resources.py)\<close>

text \<open>
  The body of a resource is kept as the source writes it: \<open>B64\<close> for
  \<open>base64.b64decode("...")\<close> and \<open>Bytes\<close> for a bytes literal.
\<close>

datatype content = B64 string | Bytes string

definition RESOURCES :: "string \<Rightarrow> (content \<times> string) option" where
  "RESOURCES = map_of
     [(''1x1.gif'',
         (B64 (''R0lGODlhAQABAIAAAAAAAP///yH5BAEAAAAALAAAAAABAAEAAAIBRAA7''),
          ''image/gif'')),
      (''2x2.png'',
         (B64 (''iVBORw0KGgoAAAANSUhEUgAAAAIAAAACCAYAAABytg0kAAAAC0lEQVQI12NgAAIAAAUAAeIm'' @
                    ''BZsAAAAASUVORK5CYII=''),
          ''image/png'')),
      (''3x2.png'',
         (B64 (''iVBORw0KGgoAAAANSUhEUgAAAAMAAAACCAYAAACddGYaAAAAC0lEQVQI12NgAAIAAAUAAeIm'' @
                    ''BZsAAAAASUVORK5CYII=''),
          ''image/png'')),
      (''32x32.png'',
         (B64 (''iVBORw0KGgoAAAANSUhEUgAAACAAAAAgCAYAAABzenr0AAAAGklEQVRYR+3OAQEAAAQEMP7/'' @
                    ''1KhkUKsA7BkPCgCjAAACsEXLAAAAAElFTkSuQmCC''),
          ''image/png'')),
      (''noopjs'',
         (Bytes (''(function(){})();''),
          ''application/javascript'')),
      (''noopjson'',
         (Bytes (''{}''),
          ''application/json'')),
      (''nooptext'',
         (Bytes (''''),
          ''text/plain'')),
      (''noopframe'',
         (Bytes (''<!DOCTYPE html><html><head></head><body></body></html>''),
          ''text/html'')),
      (''noopmp3-0.1s'',
         (B64 (''/+NIxAAAAAANIAAAAAExBTUUzLjEwMFVVVVVVVVVVVVVVVVVVVVVVVVVVVVVVVVVVVVVVVVV'' @
                    ''VVVVVVVVVVVVVVVVVVVVVVVVVVVVVVVVVVVVVVVVVVVVVVVVVVVVVVVVVVVVVVVVVVVVVVVV'' @
                    ''VVVVVVVVVVVVVVVVVVVVVVVVVVVVVVVVVVVVVVVVVVVVVVVVVVVVVVVVVVVVVVVVVVVVVQ==''),
          ''audio/mpeg'')),
      (''noopmp4-1s'',
         (B64 (''AAAAHGZ0eXBNNFYgAAACAGlzb21pc28yYXZjMQAAAAhmcmVlAAAAGm1kYXQAAAKuBgX//6rc'' @
                    ''Rem95tlIt5Ys2CDZI+7veDI2NCAtIGNvcmUgMTU1IHIyOTE3IDBhODRkOTggLSBILjI2NC9N'' @
                    ''UEVHLTQgQVZDIGNvZGVjIC0gQ29weWxlZnQgMjAwMy0yMDE4IC0gaHR0cDovL3d3dy52aWRl'' @
                    ''b2xhbi5vcmcveDI2NC5odG1sIC0gb3B0aW9uczogY2FiYWM9MSByZWY9MyBkZWJsb2NrPTE6'' @
                    ''MDowIGFuYWx5c2U9MHgzOjB4MTEzIG1lPWhleCBzdWJtZT03IHBzeT0xIHBzeV9yZD0xLjAw'' @
                    ''OjAuMDAgbWl4ZWRfcmVmPTEgbWVfcmFuZ2U9MTYgY2hyb21hX21lPTEgdHJlbGxpcz0xIDh4'' @
                    ''OGRjdD0xIGNxbT0wIGRlYWR6b25lPTIxLDExIGZhc3RfcHNraXA9MSBjaHJvbWFfcXBfb2Zm'' @
                    ''c2V0PS0yIHRocmVhZHM9MSBsb29rYWhlYWRfdGhyZWFkcz0xIHNsaWNlZF90aHJlYWRzPTAg'' @
                    ''bnI9MCBkZWNpbWF0ZT0xIGludGVybGFjZWQ9MCBibHVyYXlfY29tcGF0PTAgY29uc3RyYWlu'' @
                    ''ZWRfaW50cmE9MCBiZnJhbWVzPTMgYl9weXJhbWlkPTIgYl9hZGFwdD0xIGJfYmlhcz0wIGRp'' @
                    ''cmVjdD0xIHdlaWdodGI9MSBvcGVuX2dvcD0wIHdlaWdodHA9MiBrZXlpbnQ9MjUwIGtleWlu'' @
                    ''dF9taW49MjUgc2NlbmVjdXQ9NDAgaW50cmFfcmVmcmVzaD0wIHJjX2xvb2thaGVhZD00MCBy'' @
                    ''Yz1jcmYgbWJ0cmVlPTEgY3JmPTIzLjAgcWNvbXA9MC42MCBxcG1pbj0wIHFwbWF4PTY5IHFw'' @
                    ''c3RlcD00IGlwX3JhdGlvPTEuNDAgYXE9MToxLjAwAIAAAAAwZYiEABRRAAAAAAAWAAAA8gAA'' @
                    ''vU/yoEAAALmvAAAADAEAAAMAAAMA4E+lB3AAAAA=''),
          ''video/mp4'')),
      (''google-analytics.com/analytics.js'',
         (Bytes (''(function(){var a=window.GoogleAnalyticsObject='ga';window[a]=window[a]|'' @
                    ''|function(){(window[a].q=window[a].q||[]).push(arguments)};window[a].l=+'' @
                    ''new Date;})();''),
          ''application/javascript'')),
      (''googletagmanager.com/gtag/js'',
         (Bytes (''(function(){window.dataLayer=window.dataLayer||[];function gtag(){dataLa'' @
                    ''yer.push(arguments)};gtag('js',new Date);})();''),
          ''application/javascript'')),
      (''googletagmanager.com/gtm.js'',
         (Bytes (''(function(){})();''),
          ''application/javascript'')),
      (''doubleclick.net/instream/ad_status.js'',
         (Bytes (''(function(){})();''),
          ''application/javascript''))]"

definition RESOURCE_ALIASES :: "string \<Rightarrow> string option" where
  "RESOURCE_ALIASES = map_of
     [(''1x1-transparent.gif'', ''1x1.gif''),
      (''1x1.transparent.gif'', ''1x1.gif''),
      (''noop-1x1.gif'', ''1x1.gif''),
      (''2x2-transparent.png'', ''2x2.png''),
      (''2x2.transparent.png'', ''2x2.png''),
      (''noop-2x2.png'', ''2x2.png''),
      (''3x2-transparent.png'', ''3x2.png''),
      (''3x2.transparent.png'', ''3x2.png''),
      (''32x32-transparent.png'', ''32x32.png''),
      (''32x32.transparent.png'', ''32x32.png''),
      (''noop.js'', ''noopjs''),
      (''noopjs.js'', ''noopjs''),
      (''noop-vmap1.0.xml'', ''nooptext''),
      (''noop-0.1s.mp3'', ''noopmp3-0.1s''),
      (''noopmp3'', ''noopmp3-0.1s''),
      (''noop-1s.mp4'', ''noopmp4-1s''),
      (''noopmp4'', ''noopmp4-1s''),
      (''noop.html'', ''noopframe''),
      (''noopframe.html'', ''noopframe''),
      (''google-analytics_analytics.js'', ''google-analytics.com/analytics.js''),
      (''googlesyndication_adsbygoogle.js'', ''noopjs''),
      (''googletagservices_gpt.js'', ''noopjs''),
      (''scorecardresearch_beacon.js'', ''noopjs''),
      (''outbrain-widget.js'', ''noopjs''),
      (''ampproject_v0.js'', ''noopjs''),
      (''amazon_ads.js'', ''noopjs''),
      (''monkeybroker.js'', ''noopjs''),
      (''nobab.js'', ''noopjs''),
      (''nobab2.js'', ''noopjs'')]"

definition get_redirect_resource :: "string \<Rightarrow> (content \<times> string) option" where
  "get_redirect_resource name0 =
     (let name = (case RESOURCE_ALIASES name0 of None \<Rightarrow> name0 | Some n \<Rightarrow> n)
      in RESOURCES name)"


section \<open>The engine (engine.py)\<close>

definition PLAYWRIGHT_TYPE_MAP :: "string \<Rightarrow> RequestType option" where
  "PLAYWRIGHT_TYPE_MAP = map_of
     [(''document'', DOCUMENT), (''stylesheet'', STYLESHEET), (''image'', IMAGE),
      (''media'', MEDIA), (''font'', FONT), (''script'', SCRIPT), (''texttrack'', OTHER),
      (''xhr'', XMLHTTPREQUEST), (''fetch'', XMLHTTPREQUEST), (''eventsource'', OTHER),
      (''websocket'', WEBSOCKET), (''manifest'', OTHER), (''other'', OTHER)]"

record AdblockEngine =
  network_matcher :: NetworkFilterMatcher
  requests_checked :: nat
  requests_blocked :: nat
  requests_redirected :: nat

text \<open>
  What \<open>_handle_route\<close> reads from Playwright's request: its URL, its resource type and
  the URL of its frame (\<^const>\<open>None\<close> when there is no frame, no frame URL, or reading
  them raises). What it does to the route is the action it returns.
\<close>

record Request =
  req_url :: string
  req_resource_type :: string
  req_frame_url :: "string option"

datatype route_action = Continue | Fulfill content string | Abort

definition source_hostname_of :: "Request \<Rightarrow> string option" where
  "source_hostname_of req =
     (case req_frame_url req of
        None \<Rightarrow> None
      | Some frame_url \<Rightarrow> if frame_url = [] then None else url_host frame_url)"

definition route_result :: "(string \<Rightarrow> string \<Rightarrow> bool option) \<Rightarrow> AdblockEngine \<Rightarrow> Request \<Rightarrow> MatchResult" where
  "route_result re_lib eng req =
     should_block re_lib (network_matcher eng) (req_url req)
       (Some (case PLAYWRIGHT_TYPE_MAP (req_resource_type req) of
                None \<Rightarrow> OTHER
              | Some t \<Rightarrow> t))
       (source_hostname_of req)"

text \<open>
  \<open>fulfill_ok\<close> tells whether \<open>route.fulfill\<close> returns; when it raises, the handler
  logs and falls through to the block. A failing \<open>route.abort\<close> or \<open>route.continue_\<close> is
  logged and changes nothing.
\<close>

definition handle_route ::
  "(string \<Rightarrow> string \<Rightarrow> bool option) \<Rightarrow> bool \<Rightarrow> AdblockEngine \<Rightarrow> Request
     \<Rightarrow> AdblockEngine \<times> route_action" where
  "handle_route re_lib fulfill_ok eng0 req =
     (if \<not> (startswith (req_url req) ''http://'' \<or> startswith (req_url req) ''https://'')
      then (eng0, Continue)
      else
        (let eng = eng0\<lparr>requests_checked := requests_checked eng0 + 1\<rparr>;
             result = route_result re_lib eng req
         in if blocked result then
              (case (case mr_redirect result of
                       None \<Rightarrow> None
                     | Some name \<Rightarrow> if name = [] then None else get_redirect_resource name) of
                 Some (body, content_type) \<Rightarrow>
                   (let eng1 = eng\<lparr>requests_redirected := requests_redirected eng + 1\<rparr> in
                      if fulfill_ok then (eng1, Fulfill body content_type)
                      else (eng1\<lparr>requests_blocked := requests_blocked eng1 + 1\<rparr>, Abort))
               | None \<Rightarrow> (eng\<lparr>requests_blocked := requests_blocked eng + 1\<rparr>, Abort))
            else (eng, Continue)))"

definition get_stats :: "AdblockEngine \<Rightarrow> (string \<times> nat) list" where
  "get_stats eng =
     [(''requests_checked'', requests_checked eng),
      (''requests_blocked'', requests_blocked eng),
      (''requests_redirected'', requests_redirected eng)]"


section \<open>Loading filter lines\<close>

text \<open>
  What \<open>parse_filter_list\<close> and \<open>initialize\<close> do with lines of network filters: each
  line goes through \<open>parse_network_filter\<close>, a line that yields nothing is dropped, and
  the filters are added to a fresh matcher in the order of the lines.
\<close>

definition matcher_of_lines :: "string list \<Rightarrow> NetworkFilterMatcher" where
  "matcher_of_lines ls = add_filters new_matcher (List.map_filter parse_network_filter ls)"



section \<open>Invariants of the matcher's containers\<close>

text \<open>
  What \<open>_add_filter\<close> maintains: a filter under key \<open>k\<close> of a hostname index is
  hostname-anchored with hostname \<open>k\<close>, non-empty, and is an exception exactly in the
  exception index; a filter of a generic list is not both anchored and with a hostname.
  \<open>stored\<close> collects the filters of the four containers.
\<close>

definition index_ok :: "bool \<Rightarrow> (string \<Rightarrow> NetworkFilter list option) \<Rightarrow> bool" where
  "index_ok exc idx =
     (\<forall>k f. f \<in> set (index_get idx k) \<longrightarrow>
        is_hostname_anchor f \<and> hostname f = Some k \<and> k \<noteq> [] \<and> is_exception f = exc)"

definition generic_ok :: "bool \<Rightarrow> NetworkFilter list \<Rightarrow> bool" where
  "generic_ok exc fs =
     (\<forall>f \<in> set fs. is_exception f = exc \<and> \<not> (is_hostname_anchor f \<and> truthy (hostname f)))"

definition partitioned :: "NetworkFilterMatcher \<Rightarrow> bool" where
  "partitioned m =
     (index_ok False (hostname_index m) \<and> index_ok True (exception_hostname_index m)
      \<and> generic_ok False (generic_filters m) \<and> generic_ok True (generic_exceptions m))"

definition stored :: "NetworkFilterMatcher \<Rightarrow> NetworkFilter set" where
  "stored m =
     {f. \<exists>k. f \<in> set (index_get (hostname_index m) k)}
     \<union> {f. \<exists>k. f \<in> set (index_get (exception_hostname_index m) k)}
     \<union> set (generic_filters m) \<union> set (generic_exceptions m)"


text \<open>Two filters used as concrete inputs: \<open>||example.com^\<close> and \<open>@@||example.com/allowed^\<close>.\<close>

definition example_block :: NetworkFilter where
  "example_block =
     \<lparr>raw = ''example.com^'', pattern = ''example.com^'', is_exception = False,
      is_hostname_anchor = True, is_left_anchor = False, is_right_anchor = False,
      is_plain = False, is_regex = False, hostname = Some ''example.com'',
      third_party = None, request_types = {}, excluded_types = {}, domains = {},
      excluded_domains = {}, redirect = None\<rparr>"

definition example_exception :: NetworkFilter where
  "example_exception =
     \<lparr>raw = ''example.com/allowed^'', pattern = ''example.com/allowed^'',
      is_exception = True, is_hostname_anchor = True, is_left_anchor = False,
      is_right_anchor = False, is_plain = False, is_regex = False,
      hostname = Some ''example.com'', third_party = None, request_types = {},
      excluded_types = {}, domains = {}, excluded_domains = {}, redirect = None\<rparr>"


text \<open>A \<open>re\<close> library that rejects every raw pattern, for closed examples.\<close>

definition re_rejects_all :: "string \<Rightarrow> string \<Rightarrow> bool option" where
  "re_rejects_all p s = None"

text \<open>
  The filter \<open>||ads.example.com^$third-party,script\<close> and the matcher that holds only
  it.
\<close>

definition example_third_party_filter :: NetworkFilter where
  "example_third_party_filter =
     \<lparr>raw = ''ads.example.com^'', pattern = ''ads.example.com^'',
      is_exception = False, is_hostname_anchor = True, is_left_anchor = False,
      is_right_anchor = False, is_plain = False, is_regex = False,
      hostname = Some ''ads.example.com'', third_party = Some True,
      request_types = {SCRIPT}, excluded_types = {}, domains = {},
      excluded_domains = {}, redirect = None\<rparr>"

definition third_party_matcher :: NetworkFilterMatcher where
  "third_party_matcher = matcher_of_lines [''||ads.example.com^$third-party,script'']"


text \<open>The filter \<open>banner.js$domain=foo.com\<close>.\<close>

definition example_domain_filter :: NetworkFilter where
  "example_domain_filter =
     \<lparr>raw = ''banner.js'', pattern = ''banner.js'', is_exception = False,
      is_hostname_anchor = False, is_left_anchor = False, is_right_anchor = False,
      is_plain = True, is_regex = False, hostname = None,
      third_party = None, request_types = {}, excluded_types = {}, domains = {''foo.com''},
      excluded_domains = {}, redirect = None\<rparr>"


text \<open>An engine with fresh counters whose matcher holds the filters of the given lines.\<close>

definition example_engine :: "string list \<Rightarrow> AdblockEngine" where
  "example_engine ls = \<lparr>network_matcher = matcher_of_lines ls, requests_checked = 0,
                         requests_blocked = 0, requests_redirected = 0\<rparr>"



section \<open>Batches and quotes, as the specification words them\<close>

text \<open>
  The selectors cut into consecutive groups of \<open>batch_size\<close>: group \<open>j\<close> is
  \<open>selectors[j * 100 : j * 100 + 100]\<close>, for as many groups as it takes.
\<close>

definition batches_of :: "'a list \<Rightarrow> 'a list list" where
  "batches_of xs =
     map (\<lambda>j. take batch_size (drop (j * batch_size) xs))
       [0..<(length xs + batch_size - 1) div batch_size]"


text \<open>
  A quote character, single or double, that no backslash stands immediately before: a
  backslash escapes the character after it.
\<close>

fun has_unescaped_quote :: "string \<Rightarrow> bool" where
  "has_unescaped_quote [] = False"
| "has_unescaped_quote [c] = (c = CHR 0x22 \<or> c = CHR 0x27)"
| "has_unescaped_quote (c # d # cs) =
     (if c = CHR 0x5C then has_unescaped_quote cs
      else (c = CHR 0x22 \<or> c = CHR 0x27) \<or> has_unescaped_quote (d # cs))"


text \<open>
  Two selectors: \<open>.ad\:x[t='v']\<close>, with single quotes and a backslash that escapes a
  colon, and \<open>a[title='x']\<close>, with single quotes and no backslash.
\<close>

definition example_quoted_selector :: string where
  "example_quoted_selector = ''.ad'' @ [CHR 0x5C] @ '':x[t='' @ [CHR 0x27] @ ''v'' @ [CHR 0x27] @ '']''"

definition example_attribute_selector :: string where
  "example_attribute_selector = ''a[title='' @ [CHR 0x27] @ ''x'' @ [CHR 0x27] @ '']''"


text \<open>The handler that holds the cosmetic filters parsed from the given lines.\<close>

definition example_cosmetic_handler :: "string list \<Rightarrow> CosmeticFilterHandler" where
  "example_cosmetic_handler ls =
     c_add_filters new_cosmetic_handler (List.map_filter parse_cosmetic_filter ls)"


text \<open>The rules of a list of batches: the loop body of \<open>get_css_for_domain\<close> on each.\<close>

definition rules_of :: "string list list \<Rightarrow> string list" where
  "rules_of bs =
     map css_rule (filter (\<lambda>b. b \<noteq> []) (map (filter (\<lambda>sel. \<not> skip_selector sel)) bs))"


text \<open>
  Two scriptlet filters, \<open>##+js(aopr, adBlockDetected)\<close> without a domain and
  \<open>example.com##+js(set-constant, adblock, false)\<close>, and a small table of templates.
\<close>

definition example_scriptlet_global :: ScriptletFilter where
  "example_scriptlet_global =
     \<lparr>s_raw = ''##+js(aopr, adBlockDetected)'', scriptlet_name = ''aopr'',
      args = [''adBlockDetected''], s_domains = {}, s_excluded_domains = {}\<rparr>"

definition example_scriptlet_domain :: ScriptletFilter where
  "example_scriptlet_domain =
     \<lparr>s_raw = ''example.com##+js(set-constant, adblock, false)'',
      scriptlet_name = ''set-constant'', args = [''adblock'', ''false''],
      s_domains = {''example.com''}, s_excluded_domains = {}\<rparr>"

definition example_templates :: "string \<Rightarrow> string option" where
  "example_templates = map_of
     [(''abort-on-property-read'', ''(function(prop) { })''),
      (''set-constant'', ''(function(prop, value) { })'')]"


section \<open>Facts about the string operations\<close>










section \<open>A hostname-anchored filter and its subdomains\<close>

text \<open>
  C4. With the single filter \<open>||ads.com^\<close> loaded, \<open>should_block\<close> answers Block for
  \<open>https://ads.com/x\<close> and for \<open>https://sub.ads.com/x\<close>, and Allow for
  \<open>https://notads.com/x\<close>, whatever the \<open>re\<close> library does with raw patterns.
\<close>

theorem hostname_anchor_blocks_domain_and_subdomains:
  "decision_of (should_block re_lib (matcher_of_lines [''||ads.com^''])
                  ''https://ads.com/x'' None None) = Block
   \<and> decision_of (should_block re_lib (matcher_of_lines [''||ads.com^''])
                  ''https://sub.ads.com/x'' None None) = Block
   \<and> decision_of (should_block re_lib (matcher_of_lines [''||ads.com^''])
                  ''https://notads.com/x'' None None) = Allow"
  by code_simp


section \<open>Third-party filters and the registrable domain\<close>

text \<open>
  C2, as the specification states it, fails: \<open>ads.example.com\<close> and \<open>example.com\<close> share
  the registrable domain \<open>example.com\<close> (the last two labels), so a request from a page
  on \<open>example.com\<close> is first-party and the \<open>third-party\<close> filter does not apply.
\<close>

theorem third_party_same_registrable_domain_not_blocked:
  "decision_of (should_block re_rejects_all
                  (matcher_of_lines [''||ads.example.com^$third-party,script''])
                  ''https://ads.example.com/x.js'' (Some SCRIPT) (Some ''example.com''))
   \<noteq> Block"
  by code_simp

lemma third_party_matcher_containers:
  "index_get (hostname_index third_party_matcher) ''ads.example.com''
     = [example_third_party_filter]
   \<and> index_get (hostname_index third_party_matcher) ''example.com'' = []
   \<and> index_get (hostname_index third_party_matcher) ''com'' = []
   \<and> generic_filters third_party_matcher = []
   \<and> index_get (exception_hostname_index third_party_matcher) ''ads.example.com'' = []
   \<and> index_get (exception_hostname_index third_party_matcher) ''example.com'' = []
   \<and> index_get (exception_hostname_index third_party_matcher) ''com'' = []
   \<and> generic_exceptions third_party_matcher = []"
  by code_simp

lemma third_party_request_host:
  "url_host ''https://ads.example.com/x.js'' = Some ''ads.example.com''
   \<and> get_hostname_variants ''ads.example.com'' = [''ads.example.com'', ''example.com'', ''com'']
   \<and> get_domain ''ads.example.com'' = ''example.com''"
  by code_simp

lemma third_party_filter_pattern:
  "pattern_matches re_lib example_third_party_filter ''https://ads.example.com/x.js''"
  by code_simp

lemma third_party_filter_matches:
  "filter_matches re_lib example_third_party_filter ''https://ads.example.com/x.js''
     ''ads.example.com'' (Some SCRIPT) (Some src) tp = tp"
proof -
  have f: "third_party example_third_party_filter = Some True"
    "request_types example_third_party_filter = {SCRIPT}"
    "excluded_types example_third_party_filter = {}"
    "domains example_third_party_filter = {}"
    "excluded_domains example_third_party_filter = {}"
    by (simp_all add: example_third_party_filter_def)
  show ?thesis
    unfolding filter_matches_def f
    by (simp add: third_party_filter_pattern domain_matches_def)
qed

lemma third_party_decision:
  "decision_of (should_block re_lib third_party_matcher ''https://ads.example.com/x.js''
                  (Some SCRIPT) (Some src))
     = (if src \<noteq> [] \<and> get_domain src \<noteq> ''example.com'' then Block else Allow)"
proof -
  let ?url = "''https://ads.example.com/x.js''"
  let ?tp = "is_third_party ''ads.example.com'' (Some src)"
  note c = third_party_matcher_containers
  note h = third_party_request_host
  have tp: "?tp = (src \<noteq> [] \<and> get_domain src \<noteq> ''example.com'')"
    using h by (auto simp: is_third_party_def)
  have b: "find_blocking_filter re_lib third_party_matcher ?url ''ads.example.com''
             (Some SCRIPT) (Some src) tp
           = (if tp then Some example_third_party_filter else None)" for tp
    unfolding find_blocking_filter_def Let_def
    by (simp add: h c third_party_filter_matches)
  have e: "find_exception re_lib third_party_matcher ?url ''ads.example.com''
             (Some SCRIPT) (Some src) tp = None" for tp
    unfolding find_exception_def Let_def
    by (simp add: h c)
  have r: "redirect example_third_party_filter = None"
    by (simp add: example_third_party_filter_def)
  have "decision_of (should_block re_lib third_party_matcher ?url (Some SCRIPT) (Some src))
          = (if ?tp then Block else Allow)"
    unfolding should_block_def Let_def
    by (simp add: h b e r decision_of_def)
  then show ?thesis unfolding tp .
qed

text \<open>
  C2, amended. \<open>parse_network_filter\<close> on \<open>||ads.example.com^$third-party,script\<close> yields
  a filter with hostname \<open>ads.example.com\<close>, \<open>third_party\<close> true and request types
  \<open>{SCRIPT}\<close>. With only that filter loaded, and for every source hostname, the script
  \<open>https://ads.example.com/x.js\<close> is blocked exactly when the source hostname is not
  empty and its registrable domain, the last two labels that \<open>get_domain\<close> returns, is
  not \<open>example.com\<close>; otherwise it is allowed. So the sources \<open>example.com\<close> and
  \<open>ads.example.com\<close> are allowed, and the sources \<open>other.org\<close> and \<open>other.com\<close> are
  blocked.
\<close>

theorem third_party_filter_example:
  "parse_network_filter ''||ads.example.com^$third-party,script'' =
     Some \<lparr>raw = ''ads.example.com^'', pattern = ''ads.example.com^'',
            is_exception = False, is_hostname_anchor = True, is_left_anchor = False,
            is_right_anchor = False, is_plain = False, is_regex = False,
            hostname = Some ''ads.example.com'', third_party = Some True,
            request_types = {SCRIPT}, excluded_types = {}, domains = {},
            excluded_domains = {}, redirect = None\<rparr>
   \<and> decision_of (should_block re_lib
                    (matcher_of_lines [''||ads.example.com^$third-party,script''])
                    ''https://ads.example.com/x.js'' (Some SCRIPT) (Some src))
       = (if src \<noteq> [] \<and> get_domain src \<noteq> ''example.com'' then Block else Allow)
   \<and> decision_of (should_block re_lib
                    (matcher_of_lines [''||ads.example.com^$third-party,script''])
                    ''https://ads.example.com/x.js'' (Some SCRIPT) (Some ''example.com''))
       = Allow
   \<and> decision_of (should_block re_lib
                    (matcher_of_lines [''||ads.example.com^$third-party,script''])
                    ''https://ads.example.com/x.js'' (Some SCRIPT) (Some ''ads.example.com''))
       = Allow
   \<and> decision_of (should_block re_lib
                    (matcher_of_lines [''||ads.example.com^$third-party,script''])
                    ''https://ads.example.com/x.js'' (Some SCRIPT) (Some ''other.org''))
       = Block
   \<and> decision_of (should_block re_lib
                    (matcher_of_lines [''||ads.example.com^$third-party,script''])
                    ''https://ads.example.com/x.js'' (Some SCRIPT) (Some ''other.com''))
       = Block"
proof -
  have p: "parse_network_filter ''||ads.example.com^$third-party,script'' =
     Some \<lparr>raw = ''ads.example.com^'', pattern = ''ads.example.com^'',
            is_exception = False, is_hostname_anchor = True, is_left_anchor = False,
            is_right_anchor = False, is_plain = False, is_regex = False,
            hostname = Some ''ads.example.com'', third_party = Some True,
            request_types = {SCRIPT}, excluded_types = {}, domains = {},
            excluded_domains = {}, redirect = None\<rparr>"
    by code_simp
  have g: "decision_of (should_block re_lib
                    (matcher_of_lines [''||ads.example.com^$third-party,script''])
                    ''https://ads.example.com/x.js'' (Some SCRIPT) (Some src))
       = (if src \<noteq> [] \<and> get_domain src \<noteq> ''example.com'' then Block else Allow)"
    by (rule third_party_decision[unfolded third_party_matcher_def])
  have i1: "decision_of (should_block re_lib
                    (matcher_of_lines [''||ads.example.com^$third-party,script''])
                    ''https://ads.example.com/x.js'' (Some SCRIPT) (Some ''example.com''))
       = Allow"
    by code_simp
  have i2: "decision_of (should_block re_lib
                    (matcher_of_lines [''||ads.example.com^$third-party,script''])
                    ''https://ads.example.com/x.js'' (Some SCRIPT) (Some ''ads.example.com''))
       = Allow"
    by code_simp
  have i3: "decision_of (should_block re_lib
                    (matcher_of_lines [''||ads.example.com^$third-party,script''])
                    ''https://ads.example.com/x.js'' (Some SCRIPT) (Some ''other.org''))
       = Block"
    by code_simp
  have i4: "decision_of (should_block re_lib
                    (matcher_of_lines [''||ads.example.com^$third-party,script''])
                    ''https://ads.example.com/x.js'' (Some SCRIPT) (Some ''other.com''))
       = Block"
    by code_simp
  show ?thesis by (intro conjI p g i1 i2 i3 i4)
qed


section \<open>The containers after any sequence of \<open>add_filters\<close> calls\<close>

lemma example_filters_parsed:
  "parse_network_filter ''||example.com^'' = Some example_block
   \<and> parse_network_filter ''@@||example.com/allowed^'' = Some example_exception"
  by code_simp

lemma index_get_append:
  "index_get (index_append idx k f) k' = (if k' = k then index_get idx k @ [f] else index_get idx k')"
  by (simp add: index_get_def index_append_def)

lemma truthy_Some: "truthy h = (\<exists>k. h = Some k \<and> k \<noteq> [])"
  by (cases h) auto

lemma index_ok_append:
  "index_ok exc idx \<Longrightarrow> is_hostname_anchor f \<Longrightarrow> hostname f = Some k \<Longrightarrow> k \<noteq> []
     \<Longrightarrow> is_exception f = exc \<Longrightarrow> index_ok exc (index_append idx k f)"
  unfolding index_ok_def by (auto simp: index_get_append split: if_splits)

lemma partitioned_new: "partitioned new_matcher"
  by (simp add: partitioned_def new_matcher_def index_ok_def generic_ok_def index_get_def)

lemma add_filter_hostname_index:
  "hostname_index (add_filter m f) =
     (if is_hostname_anchor f \<and> truthy (hostname f) \<and> \<not> is_exception f
      then index_append (hostname_index m) (the (hostname f)) f else hostname_index m)"
  by (cases "hostname f") (simp_all add: add_filter_def Let_def)

lemma add_filter_exception_hostname_index:
  "exception_hostname_index (add_filter m f) =
     (if is_hostname_anchor f \<and> truthy (hostname f) \<and> is_exception f
      then index_append (exception_hostname_index m) (the (hostname f)) f
      else exception_hostname_index m)"
  by (cases "hostname f") (simp_all add: add_filter_def Let_def)

lemma add_filter_generic_filters:
  "generic_filters (add_filter m f) =
     (if \<not> (is_hostname_anchor f \<and> truthy (hostname f)) \<and> \<not> is_exception f
      then generic_filters m @ [f] else generic_filters m)"
  by (cases "hostname f") (simp_all add: add_filter_def Let_def)

lemma add_filter_generic_exceptions:
  "generic_exceptions (add_filter m f) =
     (if \<not> (is_hostname_anchor f \<and> truthy (hostname f)) \<and> is_exception f
      then generic_exceptions m @ [f] else generic_exceptions m)"
  by (cases "hostname f") (simp_all add: add_filter_def Let_def)

lemmas add_filter_fields =
  add_filter_hostname_index add_filter_exception_hostname_index
  add_filter_generic_filters add_filter_generic_exceptions

lemma generic_ok_snoc:
  "generic_ok exc fs \<Longrightarrow> is_exception f = exc
     \<Longrightarrow> \<not> (is_hostname_anchor f \<and> truthy (hostname f)) \<Longrightarrow> generic_ok exc (fs @ [f])"
  by (auto simp: generic_ok_def)

lemma partitioned_add_filter: "partitioned m \<Longrightarrow> partitioned (add_filter m f)"
  unfolding partitioned_def add_filter_fields
  by (auto simp: truthy_Some intro!: index_ok_append generic_ok_snoc)

lemma stored_new: "stored new_matcher = {}"
  by (simp add: stored_def new_matcher_def index_get_def)

lemma index_members_append:
  "(\<exists>k'. x \<in> set (index_get (index_append idx k f) k'))
     = (x = f \<or> (\<exists>k'. x \<in> set (index_get idx k')))"
proof
  assume "\<exists>k'. x \<in> set (index_get (index_append idx k f) k')"
  then obtain k' where "x \<in> set (index_get (index_append idx k f) k')" ..
  then show "x = f \<or> (\<exists>k'. x \<in> set (index_get idx k'))"
    by (cases "k' = k") (auto simp: index_get_append)
next
  assume "x = f \<or> (\<exists>k'. x \<in> set (index_get idx k'))"
  then show "\<exists>k'. x \<in> set (index_get (index_append idx k f) k')"
  proof
    assume "x = f"
    then have "x \<in> set (index_get (index_append idx k f) k)" by (simp add: index_get_append)
    then show ?thesis ..
  next
    assume "\<exists>k'. x \<in> set (index_get idx k')"
    then obtain k' where "x \<in> set (index_get idx k')" ..
    then have "x \<in> set (index_get (index_append idx k f) k')" by (auto simp: index_get_append)
    then show ?thesis ..
  qed
qed

lemma stored_iff:
  "(x \<in> stored m) =
     ((\<exists>k. x \<in> set (index_get (hostname_index m) k))
      \<or> (\<exists>k. x \<in> set (index_get (exception_hostname_index m) k))
      \<or> x \<in> set (generic_filters m) \<or> x \<in> set (generic_exceptions m))"
  by (simp add: stored_def)

lemma stored_add_filter: "stored (add_filter m f) = insert f (stored m)"
proof (rule set_eqI)
  fix x
  show "(x \<in> stored (add_filter m f)) = (x \<in> insert f (stored m))"
    unfolding stored_iff insert_iff add_filter_fields
    by (simp add: index_members_append) blast
qed

lemma partitioned_add_filters: "partitioned m \<Longrightarrow> partitioned (add_filters m fs)"
  unfolding add_filters_def by (induction fs arbitrary: m) (auto simp: partitioned_add_filter)

lemma stored_add_filters: "stored (add_filters m fs) = stored m \<union> set fs"
  unfolding add_filters_def by (induction fs arbitrary: m) (auto simp: stored_add_filter)

lemma partitioned_calls: "partitioned m \<Longrightarrow> partitioned (foldl add_filters m fss)"
  by (induction fss arbitrary: m) (auto simp: partitioned_add_filters)

lemma stored_calls: "stored (foldl add_filters m fss) = stored m \<union> set (concat fss)"
  by (induction fss arbitrary: m) (auto simp: stored_add_filters)

text \<open>
  C10. After any sequence of \<open>add_filters\<close> calls on a fresh matcher, a filter that was
  added is in a blocking hostname index exactly when it is hostname-anchored with a
  non-empty hostname and no exception, in the exception hostname index exactly when it
  is so and an exception, and in the generic list of its kind exactly when it is not
  both anchored and with a hostname: the four conditions exclude each other, so it is
  in one container only. Every filter found under a key of a hostname index is
  hostname-anchored and has that key, which is not empty, as its hostname.
\<close>

theorem add_filters_partition:
  assumes "m = foldl add_filters new_matcher calls" and "f \<in> set (concat calls)"
  shows "((\<exists>k. f \<in> set (index_get (hostname_index m) k))
            = (is_hostname_anchor f \<and> truthy (hostname f) \<and> \<not> is_exception f))
       \<and> ((\<exists>k. f \<in> set (index_get (exception_hostname_index m) k))
            = (is_hostname_anchor f \<and> truthy (hostname f) \<and> is_exception f))
       \<and> ((f \<in> set (generic_filters m))
            = (\<not> (is_hostname_anchor f \<and> truthy (hostname f)) \<and> \<not> is_exception f))
       \<and> ((f \<in> set (generic_exceptions m))
            = (\<not> (is_hostname_anchor f \<and> truthy (hostname f)) \<and> is_exception f))
       \<and> (\<forall>k g. g \<in> set (index_get (hostname_index m) k)
                   \<or> g \<in> set (index_get (exception_hostname_index m) k)
                 \<longrightarrow> is_hostname_anchor g \<and> hostname g = Some k \<and> k \<noteq> [])"
proof -
  define A where "A = (is_hostname_anchor f \<and> truthy (hostname f))"
  define X where "X = is_exception f"
  define I where "I = (\<exists>k. f \<in> set (index_get (hostname_index m) k))"
  define J where "J = (\<exists>k. f \<in> set (index_get (exception_hostname_index m) k))"
  define G where "G = (f \<in> set (generic_filters m))"
  define H where "H = (f \<in> set (generic_exceptions m))"
  have part: "partitioned m" unfolding assms(1) by (rule partitioned_calls) (rule partitioned_new)
  have "f \<in> stored m" unfolding assms(1) using assms(2) by (simp add: stored_calls stored_new)
  then have st: "I \<or> J \<or> G \<or> H" by (simp add: stored_iff I_def J_def G_def H_def)
  from part have ib: "index_ok False (hostname_index m)"
    and ie: "index_ok True (exception_hostname_index m)"
    and gb: "generic_ok False (generic_filters m)"
    and ge: "generic_ok True (generic_exceptions m)"
    by (simp_all add: partitioned_def)
  have keys: "is_hostname_anchor g \<and> hostname g = Some k \<and> k \<noteq> []"
    if "g \<in> set (index_get (hostname_index m) k)
          \<or> g \<in> set (index_get (exception_hostname_index m) k)" for k g
    using that ib ie unfolding index_ok_def by blast
  have i: "I \<Longrightarrow> A \<and> \<not> X"
    using ib unfolding index_ok_def I_def A_def X_def truthy_Some by blast
  have j: "J \<Longrightarrow> A \<and> X"
    using ie unfolding index_ok_def J_def A_def X_def truthy_Some by blast
  have g: "G \<Longrightarrow> \<not> A \<and> \<not> X"
    using gb unfolding generic_ok_def G_def A_def X_def by blast
  have h: "H \<Longrightarrow> \<not> A \<and> X"
    using ge unfolding generic_ok_def H_def A_def X_def by blast
  have "(I = (A \<and> \<not> X)) \<and> (J = (A \<and> X)) \<and> (G = (\<not> A \<and> \<not> X)) \<and> (H = (\<not> A \<and> X))"
    using st i j g h by blast
  then show ?thesis
    unfolding I_def J_def G_def H_def A_def X_def using keys by blast
qed

theorem add_filters_partition_witness:
  "example_block \<in> set (concat [[example_block], [example_exception]])
   \<and> (\<exists>k. example_block
            \<in> set (index_get
                     (hostname_index
                        (foldl add_filters new_matcher [[example_block], [example_exception]]))
                     k))
   \<and> example_block
        \<notin> set (generic_filters
                  (foldl add_filters new_matcher [[example_block], [example_exception]]))"
proof -
  have h: "example_block \<in> set (concat [[example_block], [example_exception]])"
    by simp
  have a: "is_hostname_anchor example_block \<and> truthy (hostname example_block)
           \<and> \<not> is_exception example_block"
    by (simp add: example_block_def)
  note p = add_filters_partition[OF refl h]
  from p a have "\<exists>k. example_block
            \<in> set (index_get
                     (hostname_index
                        (foldl add_filters new_matcher [[example_block], [example_exception]]))
                     k)"
    by blast
  moreover from p a have "example_block
        \<notin> set (generic_filters
                  (foldl add_filters new_matcher [[example_block], [example_exception]]))"
    by blast
  ultimately show ?thesis using h by blast
qed


section \<open>Exceptions override blocks\<close>

lemma split_on_ne: "split_on sep s \<noteq> []"
  by (induction s) (auto split: list.splits)

lemma join_split_on: "join [sep] (split_on sep s) = s"
proof (induction s)
  case Nil
  then show ?case by simp
next
  case (Cons c cs)
  obtain p ps where sp: "split_on sep cs = p # ps"
    using split_on_ne[of sep cs] by (cases "split_on sep cs") auto
  with Cons show ?case by (cases ps) auto
qed

lemma split_on_append:
  "split_on sep (p @ sep # h) = split_on sep p @ split_on sep h"
proof (induction p)
  case Nil
  then show ?case by simp
next
  case (Cons c p)
  obtain x xs where sp: "split_on sep p = x # xs"
    using split_on_ne[of sep p] by (cases "split_on sep p") auto
  with Cons show ?case by simp
qed

lemma tails_ne_self: "ys \<noteq> [] \<Longrightarrow> ys \<in> set (tails_ne ys)"
  by (cases ys) auto

lemma tails_ne_append: "ys \<noteq> [] \<Longrightarrow> ys \<in> set (tails_ne (xs @ ys))"
  by (induction xs) (auto simp: tails_ne_self)

lemma startswith_iff: "startswith s p = (\<exists>r. s = p @ r)"
  by (induction s p rule: startswith.induct) auto

lemma endswith_iff: "endswith s p = (\<exists>q. s = q @ p)"
proof -
  have "endswith s p = (\<exists>r. rev s = rev p @ r)" by (simp add: endswith_def startswith_iff)
  also have "\<dots> = (\<exists>q. s = q @ p)"
  proof
    assume "\<exists>r. rev s = rev p @ r"
    then obtain r where "rev s = rev p @ r" ..
    then have "s = rev r @ p" by (metis rev_append rev_rev_ident)
    then show "\<exists>q. s = q @ p" ..
  next
    assume "\<exists>q. s = q @ p"
    then obtain q where "s = q @ p" ..
    then have "rev s = rev p @ rev q" by simp
    then show "\<exists>r. rev s = rev p @ r" ..
  qed
  finally show ?thesis .
qed

lemma variants_self: "h \<in> set (get_hostname_variants h)"
proof -
  have "split_on CHR ''.'' h \<in> set (tails_ne (split_on CHR ''.'' h))"
    by (rule tails_ne_self) (rule split_on_ne)
  then have "join ''.'' (split_on CHR ''.'' h) \<in> set (get_hostname_variants h)"
    unfolding get_hostname_variants_def by (simp only: set_map) (rule imageI)
  then show ?thesis by (simp add: join_split_on)
qed

lemma variants_suffix:
  assumes "endswith uh (''.'' @ k)"
  shows "k \<in> set (get_hostname_variants uh)"
proof -
  from assms obtain q where uh: "uh = q @ CHR ''.'' # k" by (auto simp: endswith_iff)
  have "split_on CHR ''.'' k \<in> set (tails_ne (split_on CHR ''.'' uh))"
    unfolding uh split_on_append by (rule tails_ne_append) (rule split_on_ne)
  then have "join ''.'' (split_on CHR ''.'' k) \<in> set (get_hostname_variants uh)"
    unfolding get_hostname_variants_def by (simp only: set_map) (rule imageI)
  then show ?thesis by (simp add: join_split_on)
qed

lemma find_in_index_Some:
  "k \<in> set vs \<Longrightarrow> f \<in> set (index_get idx k) \<Longrightarrow> P f \<Longrightarrow> find_in_index P idx vs \<noteq> None"
proof (induction vs)
  case Nil
  then show ?case by simp
next
  case (Cons v vs)
  show ?case
  proof (cases "List.find P (index_get idx v)")
    case (Some g)
    then show ?thesis by simp
  next
    case None
    then have "\<not> (\<exists>x. x \<in> set (index_get idx v) \<and> P x)" by (simp add: find_None_iff)
    with Cons.prems have "k \<noteq> v" by auto
    with Cons None show ?thesis by simp
  qed
qed

lemma filter_matches_pattern:
  "filter_matches re_lib f url host rt src tp \<Longrightarrow> pattern_matches re_lib f url"
  by (simp add: filter_matches_def split: if_splits)

lemma pattern_matches_anchor:
  assumes "pattern_matches re_lib f url" and "is_hostname_anchor f" and "hostname f = Some k"
  shows "\<exists>uh. url_host url = Some uh \<and> (uh = k \<or> endswith uh (''.'' @ k))"
  using assms by (auto simp: pattern_matches_def Let_def split: option.splits if_splits)

lemma anchored_key_is_variant:
  assumes "filter_matches re_lib f url host rt src tp" and "is_hostname_anchor f"
    and "hostname f = Some k" and "url_host url = Some host"
  shows "k \<in> set (get_hostname_variants host)"
proof -
  from assms(1) have "pattern_matches re_lib f url" by (rule filter_matches_pattern)
  from pattern_matches_anchor[OF this assms(2,3)] assms(4)
  have "host = k \<or> endswith host (''.'' @ k)" by auto
  then show ?thesis using variants_self variants_suffix by auto
qed

lemma find_exception_Some:
  assumes part: "partitioned m" and st: "E \<in> stored m" and exc: "is_exception E"
    and host: "url_host url = Some host"
    and mt: "filter_matches re_lib E url host rt src tp"
  shows "find_exception re_lib m url host rt src tp \<noteq> None"
proof -
  let ?P = "\<lambda>f. filter_matches re_lib f url host rt src tp"
  from part have ib: "index_ok False (hostname_index m)"
    and ie: "index_ok True (exception_hostname_index m)"
    and gb: "generic_ok False (generic_filters m)"
    by (simp_all add: partitioned_def)
  have nb: "E \<notin> set (index_get (hostname_index m) k)" for k
    using ib exc unfolding index_ok_def by blast
  have ng: "E \<notin> set (generic_filters m)"
    using gb exc unfolding generic_ok_def by blast
  from st nb ng consider (idx) k where "E \<in> set (index_get (exception_hostname_index m) k)"
    | (gen) "E \<in> set (generic_exceptions m)"
    unfolding stored_iff by blast
  then show ?thesis
  proof cases
    case idx
    from ie idx have an: "is_hostname_anchor E" and hn: "hostname E = Some k"
      unfolding index_ok_def by blast+
    have "k \<in> set (get_hostname_variants host)"
      by (rule anchored_key_is_variant[OF mt an hn host])
    from this idx mt
    have "find_in_index ?P (exception_hostname_index m) (get_hostname_variants host) \<noteq> None"
      by (rule find_in_index_Some)
    then show ?thesis by (auto simp: find_exception_def Let_def)
  next
    case gen
    with mt have "\<exists>x. x \<in> set (generic_exceptions m) \<and> ?P x" by blast
    then have "List.find ?P (generic_exceptions m) \<noteq> None" by (simp add: find_None_iff)
    then show ?thesis by (auto simp: find_exception_def Let_def split: option.splits)
  qed
qed

lemma should_block_exception:
  assumes "url_host url = Some host"
    and "find_exception re_lib m url host rt src (is_third_party host src) \<noteq> None"
  shows "decision_of (should_block re_lib m url rt src) = Allow"
proof -
  from assms(2) obtain e
    where e: "find_exception re_lib m url host rt src (is_third_party host src) = Some e"
    by blast
  show ?thesis
  proof (cases "find_blocking_filter re_lib m url host rt src (is_third_party host src)")
    case None
    with assms(1) show ?thesis by (simp add: should_block_def decision_of_def)
  next
    case (Some b)
    with assms(1) e show ?thesis by (simp add: should_block_def decision_of_def)
  qed
qed


lemma should_block_unparseable:
  "url_host url = None \<Longrightarrow> decision_of (should_block re_lib m url rt src) = Allow"
  by (simp add: should_block_def decision_of_def)

text \<open>
  C1. Let the matcher be loaded by any sequence of \<open>add_filters\<close> calls, and let a
  request have a URL whose host \<open>should_block\<close> can read. If a blocking filter and an
  exception filter among the added ones both match the request (the match predicate of
  \<open>should_block\<close>, with the host and the third-party flag it computes), the decision is
  Allow, wherever the two filters stand in the calls. A URL without a readable host is
  allowed by \<open>should_block_unparseable\<close>.
\<close>

theorem exception_wins:
  assumes "m = foldl add_filters new_matcher calls"
    and "B \<in> set (concat calls)" and "\<not> is_exception B"
    and "E \<in> set (concat calls)" and "is_exception E"
    and "url_host url = Some host"
    and "filter_matches re_lib B url host rt src (is_third_party host src)"
    and "filter_matches re_lib E url host rt src (is_third_party host src)"
  shows "decision_of (should_block re_lib m url rt src) = Allow"
proof -
  have "partitioned m" unfolding assms(1) by (rule partitioned_calls) (rule partitioned_new)
  moreover have "E \<in> stored m" unfolding assms(1) using assms(4) by (simp add: stored_calls)
  ultimately have "find_exception re_lib m url host rt src (is_third_party host src) \<noteq> None"
    using assms(5,6,8) by (rule find_exception_Some)
  with assms(6) show ?thesis by (rule should_block_exception)
qed


theorem exception_wins_witness:
  "example_block \<in> set (concat [[example_block, example_exception]])
   \<and> \<not> is_exception example_block
   \<and> example_exception \<in> set (concat [[example_block, example_exception]])
   \<and> is_exception example_exception
   \<and> url_host ''https://example.com/allowed'' = Some ''example.com''
   \<and> filter_matches re_rejects_all example_block ''https://example.com/allowed''
        ''example.com'' None None (is_third_party ''example.com'' None)
   \<and> filter_matches re_rejects_all example_exception ''https://example.com/allowed''
        ''example.com'' None None (is_third_party ''example.com'' None)
   \<and> decision_of
        (should_block re_rejects_all
           (foldl add_filters new_matcher [[example_block, example_exception]])
           ''https://example.com/allowed'' None None) = Allow"
proof -
  have h1: "example_block \<in> set (concat [[example_block, example_exception]])"
    by simp
  have h2: "\<not> is_exception example_block"
    by (simp add: example_block_def)
  have h3: "example_exception \<in> set (concat [[example_block, example_exception]])"
    by simp
  have h4: "is_exception example_exception"
    by (simp add: example_exception_def)
  have h5: "url_host ''https://example.com/allowed'' = Some ''example.com''"
    by code_simp
  have h6: "filter_matches re_rejects_all example_block ''https://example.com/allowed''
        ''example.com'' None None (is_third_party ''example.com'' None)"
    by code_simp
  have h7: "filter_matches re_rejects_all example_exception ''https://example.com/allowed''
        ''example.com'' None None (is_third_party ''example.com'' None)"
    by code_simp
  note c = exception_wins[OF refl h1 h2 h3 h4 h5 h6 h7]
  show ?thesis by (intro conjI h1 h2 h3 h4 h5 h6 h7 c)
qed


section \<open>When \<open>parse_network_filter\<close> returns nothing\<close>




section \<open>Domain constraints in the match predicate\<close>

lemma example_domain_filter_parsed:
  "parse_network_filter ''banner.js$domain=foo.com'' = Some example_domain_filter"
  by code_simp

text \<open>
  C3, as stated, fails where the source hostname is absent: \<open>_filter_matches\<close> checks
  the domain constraints under \<open>if source_hostname:\<close> only. The filter
  \<open>banner.js$domain=foo.com\<close> has the include set \<open>{foo.com}\<close>, and it matches, and
  blocks, a request that comes without a source hostname.
\<close>

theorem domain_filter_matches_without_source:
  "domains example_domain_filter \<noteq> {}
   \<and> filter_matches re_rejects_all example_domain_filter ''https://x.com/banner.js''
        ''x.com'' None None False
   \<and> decision_of (should_block re_rejects_all (matcher_of_lines [''banner.js$domain=foo.com''])
                    ''https://x.com/banner.js'' None None) = Block"
  by code_simp

lemma pattern_matches_domains:
  "pattern_matches re_lib (f\<lparr>domains := D, excluded_domains := X\<rparr>) url = pattern_matches re_lib f url"
  by (simp add: pattern_matches_def get_regex_def Let_def cong: option.case_cong if_cong)

lemma domain_matches_iff:
  "domain_matches src inc exc =
     ((\<forall>v\<in>set (get_hostname_variants (lower src)). v \<notin> exc)
      \<and> (inc \<noteq> {} \<longrightarrow> (\<exists>v\<in>set (get_hostname_variants (lower src)). v \<in> inc)))"
  by (auto simp: domain_matches_def Let_def list_ex_iff)

text \<open>
  C3, amended. When the source hostname is present and not empty, a filter that matches
  has no dot-suffix variant of the lower-cased source hostname among its excluded
  domains, and, when its include set is not empty, has some variant in that set. When
  the source hostname is absent or empty the domain constraints are not looked at: the
  match is the same whatever the two domain sets hold.
\<close>

theorem filter_matches_domain_constraints:
  "(filter_matches re_lib f url host rt (Some src) tp \<and> src \<noteq> [] \<longrightarrow>
      (\<forall>v\<in>set (get_hostname_variants (lower src)). v \<notin> excluded_domains f)
      \<and> (domains f \<noteq> {} \<longrightarrow>
           (\<exists>v\<in>set (get_hostname_variants (lower src)). v \<in> domains f)))
   \<and> (absent = None \<or> absent = Some [] \<longrightarrow>
        filter_matches re_lib (f\<lparr>domains := D, excluded_domains := X\<rparr>) url host rt absent tp
          = filter_matches re_lib f url host rt absent tp)"
proof (intro conjI impI)
  assume a: "filter_matches re_lib f url host rt (Some src) tp \<and> src \<noteq> []"
  then have "domain_matches src (domains f) (excluded_domains f)"
    by (auto simp: filter_matches_def split: if_splits)
  then show "\<forall>v\<in>set (get_hostname_variants (lower src)). v \<notin> excluded_domains f"
    and "domains f \<noteq> {} \<Longrightarrow> \<exists>v\<in>set (get_hostname_variants (lower src)). v \<in> domains f"
    by (simp_all add: domain_matches_iff)
next
  assume "absent = None \<or> absent = Some []"
  then show "filter_matches re_lib (f\<lparr>domains := D, excluded_domains := X\<rparr>) url host rt absent tp
          = filter_matches re_lib f url host rt absent tp"
    by (auto simp: filter_matches_def pattern_matches_domains cong: option.case_cong if_cong)
qed

theorem filter_matches_domain_constraints_witness:
  "filter_matches re_rejects_all example_domain_filter ''https://x.com/banner.js''
        ''x.com'' None (Some ''www.foo.com'') True
   \<and> ''www.foo.com'' \<noteq> []
   \<and> domains example_domain_filter \<noteq> {}
   \<and> (\<exists>v\<in>set (get_hostname_variants (lower ''www.foo.com'')). v \<in> domains example_domain_filter)"
proof -
  have h: "filter_matches re_rejects_all example_domain_filter ''https://x.com/banner.js''
        ''x.com'' None (Some ''www.foo.com'') True"
    by code_simp
  have n: "''www.foo.com'' \<noteq> []" by simp
  have d: "domains example_domain_filter \<noteq> {}" by (simp add: example_domain_filter_def)
  from filter_matches_domain_constraints[of re_rejects_all example_domain_filter
      "''https://x.com/banner.js''" "''x.com''" None "''www.foo.com''" True] h n d
  have "\<exists>v\<in>set (get_hostname_variants (lower ''www.foo.com'')). v \<in> domains example_domain_filter"
    by blast
  with h n d show ?thesis by blast
qed


section \<open>Counters and actions of the route handler\<close>

lemma route_result_counters:
  "route_result re_lib (eng\<lparr>requests_checked := n\<rparr>) req = route_result re_lib eng req"
  by (simp add: route_result_def)

lemma decision_cases:
  "decision_of r = Allow \<longleftrightarrow> \<not> blocked r"
  "decision_of r = Block \<longleftrightarrow> blocked r \<and> \<not> truthy (mr_redirect r)"
  "decision_of r = Redirect n \<longleftrightarrow> blocked r \<and> mr_redirect r = Some n \<and> n \<noteq> []"
  by (auto simp: decision_of_def split: option.splits)

text \<open>
  C5, as stated, fails twice. A request whose URL is neither \<open>http://\<close> nor \<open>https://\<close>
  is continued without any counter moving; and a Redirect decision whose resource name
  the table does not know is aborted and counted as blocked.
\<close>

theorem handle_route_counterexample:
  "requests_checked
     (fst (handle_route re_rejects_all True (example_engine [''||ads.com^''])
             \<lparr>req_url = ''data:text/plain,x'', req_resource_type = ''other'',
               req_frame_url = None\<rparr>)) = 0
   \<and> decision_of (route_result re_rejects_all (example_engine [''||ads.com^$redirect=nosuch''])
        \<lparr>req_url = ''https://ads.com/a.js'', req_resource_type = ''script'',
          req_frame_url = Some ''https://news.org/''\<rparr>) = Redirect ''nosuch''
   \<and> snd (handle_route re_rejects_all True (example_engine [''||ads.com^$redirect=nosuch''])
        \<lparr>req_url = ''https://ads.com/a.js'', req_resource_type = ''script'',
          req_frame_url = Some ''https://news.org/''\<rparr>) = Abort
   \<and> requests_blocked
        (fst (handle_route re_rejects_all True (example_engine [''||ads.com^$redirect=nosuch''])
        \<lparr>req_url = ''https://ads.com/a.js'', req_resource_type = ''script'',
          req_frame_url = Some ''https://news.org/''\<rparr>)) = 1"
  by code_simp

text \<open>
  C5, amended, for a route whose \<open>fulfill\<close> call returns. A request that is not
  \<open>http(s)\<close> is continued and the engine is unchanged. Otherwise \<open>requests_checked\<close>
  grows by one and, by the decision of the matcher: Allow continues the request and
  moves no other counter; Block aborts it and adds one to \<open>requests_blocked\<close>;
  Redirect with a name that \<open>get_redirect_resource\<close> knows fulfils the request with that
  resource and adds one to \<open>requests_redirected\<close> only; Redirect with an unknown name
  aborts the request and adds one to \<open>requests_blocked\<close>.
\<close>

theorem handle_route_counters:
  "handle_route re_lib True eng req =
     (if \<not> (startswith (req_url req) ''http://'' \<or> startswith (req_url req) ''https://'')
      then (eng, Continue)
      else
        (case decision_of (route_result re_lib eng req) of
           Allow \<Rightarrow> (eng\<lparr>requests_checked := requests_checked eng + 1\<rparr>, Continue)
         | Block \<Rightarrow>
             (eng\<lparr>requests_checked := requests_checked eng + 1,
                  requests_blocked := requests_blocked eng + 1\<rparr>, Abort)
         | Redirect name \<Rightarrow>
             (case get_redirect_resource name of
                None \<Rightarrow>
                  (eng\<lparr>requests_checked := requests_checked eng + 1,
                       requests_blocked := requests_blocked eng + 1\<rparr>, Abort)
              | Some (body, content_type) \<Rightarrow>
                  (eng\<lparr>requests_checked := requests_checked eng + 1,
                       requests_redirected := requests_redirected eng + 1\<rparr>,
                   Fulfill body content_type))))"
proof (cases "startswith (req_url req) ''http://'' \<or> startswith (req_url req) ''https://''")
  case False
  then show ?thesis by (simp add: handle_route_def)
next
  case True
  let ?r = "route_result re_lib eng req"
  show ?thesis
  proof (cases "decision_of ?r")
    case Allow
    then have "\<not> blocked ?r" by (simp add: decision_cases)
    with True Allow show ?thesis by (simp add: handle_route_def route_result_counters)
  next
    case Block
    then have "blocked ?r" "\<not> truthy (mr_redirect ?r)" by (simp_all add: decision_cases)
    with True Block show ?thesis
      by (cases "mr_redirect ?r") (simp_all add: handle_route_def route_result_counters)
  next
    case (Redirect n)
    then have "blocked ?r" "mr_redirect ?r = Some n" "n \<noteq> []" by (simp_all add: decision_cases)
    with True Redirect show ?thesis
      by (cases "get_redirect_resource n")
         (auto simp: handle_route_def route_result_counters)
  qed
qed


section \<open>The CSS of a hostname\<close>

lemma rules_of_Cons:
  "rules_of (b # bs) =
     (if filter (\<lambda>sel. \<not> skip_selector sel) b \<noteq> []
      then css_rule (filter (\<lambda>sel. \<not> skip_selector sel) b) # rules_of bs else rules_of bs)"
  by (simp add: rules_of_def)

lemma ceil_div_less:
  assumes "0 < (c::nat)"
  shows "(k < (n + c - 1) div c) = (k * c < n)"
proof -
  have "(k < (n + c - 1) div c) = (Suc k \<le> (n + c - 1) div c)" by auto
  also have "\<dots> = (Suc k * c \<le> n + c - 1)"
    using assms by (rule less_eq_div_iff_mult_less_eq)
  also have "\<dots> = (k * c < n)" using assms by auto
  finally show ?thesis .
qed

lemma batch_index_less: "(k * batch_size < n) = (k < (n + batch_size - 1) div batch_size)"
  using ceil_div_less[of batch_size k n] by (simp add: batch_size_def)

lemma css_loop_from:
  "i = k * batch_size \<Longrightarrow> n = (length xs + batch_size - 1) div batch_size \<Longrightarrow>
   css_loop xs i acc =
     acc @ rules_of (map (\<lambda>j. take batch_size (drop (j * batch_size) xs)) [k..<n])"
proof (induction xs i acc arbitrary: k rule: css_loop.induct)
  case (1 selectors i css_rules)
  let ?b = "\<lambda>j. take batch_size (drop (j * batch_size) selectors)"
  show ?case
  proof (cases "i < length selectors")
    case False
    with "1.prems" have "\<not> k < n"
      using batch_index_less[of k "length selectors"] by simp
    then have "rules_of (map ?b [k..<n]) = []" by (simp add: rules_of_def)
    moreover from False have "css_loop selectors i css_rules = css_rules"
      by (subst css_loop.simps) simp
    ultimately show ?thesis by simp
  next
    case True
    with "1.prems" have kn: "k < n"
      using batch_index_less[of k "length selectors"] by simp
    then have up: "[k..<n] = k # [Suc k..<n]" by (simp add: upt_conv_Cons)
    have step: "i + batch_size = Suc k * batch_size" using "1.prems"(1) by simp
    let ?safe = "filter (\<lambda>sel. \<not> skip_selector sel) (take batch_size (drop i selectors))"
    let ?acc = "if ?safe \<noteq> [] then css_rules @ [css_rule ?safe] else css_rules"
    have "css_loop selectors i css_rules = css_loop selectors (i + batch_size) ?acc"
      using True by (subst css_loop.simps) (simp add: Let_def)
    also have "\<dots> = ?acc @ rules_of (map ?b [Suc k..<n])"
      using "1.IH"[OF True refl refl step "1.prems"(2)] by simp
    also have "\<dots> = css_rules @ rules_of (map ?b [k..<n])"
      unfolding up using "1.prems"(1) by (simp add: rules_of_Cons)
    finally show ?thesis .
  qed
qed

lemma css_loop_batches: "css_loop xs 0 [] = rules_of (batches_of xs)"
  using css_loop_from[of 0 0 _ xs "[]", OF _ refl] by (simp add: batches_of_def)

lemma concat_batches_upto:
  "concat (map (\<lambda>j. take n (drop (j * n) xs)) [0..<m]) = take (m * n) xs"
proof (induction m)
  case 0
  then show ?case by simp
next
  case (Suc m)
  have "take (m * n) xs @ take n (drop (m * n) xs) = take (m * n + n) xs"
    by (simp add: take_add)
  with Suc show ?case by (simp add: add.commute)
qed

lemma concat_batches_of: "concat (batches_of xs) = xs"
proof -
  have "\<not> ((length xs + batch_size - 1) div batch_size) * batch_size < length xs"
    by (simp only: batch_index_less)
  then have "length xs \<le> ((length xs + batch_size - 1) div batch_size) * batch_size"
    by simp
  then show ?thesis by (simp add: batches_of_def concat_batches_upto)
qed

lemma batches_of_bounds:
  assumes "b \<in> set (batches_of xs)"
  shows "b \<noteq> [] \<and> length b \<le> 100"
proof -
  from assms obtain j where j: "j < (length xs + batch_size - 1) div batch_size"
    and b: "b = take batch_size (drop (j * batch_size) xs)"
    by (auto simp: batches_of_def)
  from j have "j * batch_size < length xs" by (simp only: batch_index_less)
  with b have "b \<noteq> []" by (simp add: batch_size_def)
  moreover from b have "length b \<le> 100" by (simp add: batch_size_def)
  ultimately show ?thesis ..
qed

text \<open>
  C6, as stated, fails: the selector \<open>.ad\:x[t='v']\<close> holds single quotes that nothing
  escapes, and it is kept, because the test takes a backslash anywhere in the selector
  for an escape.
\<close>

theorem quoted_selector_with_backslash_kept:
  "has_unescaped_quote example_quoted_selector
   \<and> get_css_for_domain (example_cosmetic_handler [''##'' @ example_quoted_selector])
        ''example.com''
       = example_quoted_selector @ '' { display: none !important; }''"
  by code_simp

text \<open>
  C6, amended. The CSS of a hostname is the rules of the batches of its selectors joined
  by line feeds. The batches are consecutive, cover the selectors in order, and hold
  between 1 and 100 selectors each. From each batch the skipped selectors are dropped,
  the rest is joined with \<open>", "\<close> and followed by \<open>" { display: none !important; }"\<close>,
  and a batch with nothing left gives no rule. No selectors give the empty string. A
  selector without a backslash is skipped exactly when it holds a quote character,
  single or double; a selector without a double quote is skipped exactly when it holds
  a single quote and no backslash.
\<close>

theorem css_for_domain_batches:
  "get_css_for_domain h host =
     join [CHR 0x0A]
       (map css_rule
          (filter (\<lambda>b. b \<noteq> [])
             (map (filter (\<lambda>sel. \<not> skip_selector sel))
                (batches_of (get_selectors_for_domain h host)))))
   \<and> concat (batches_of (get_selectors_for_domain h host)) = get_selectors_for_domain h host
   \<and> (\<forall>b \<in> set (batches_of (get_selectors_for_domain h host)). b \<noteq> [] \<and> length b \<le> 100)
   \<and> css_rule survivors = join '', '' survivors @ '' { display: none !important; }''
   \<and> (get_selectors_for_domain h host = [] \<longrightarrow> get_css_for_domain h host = [])
   \<and> (CHR 0x5C \<notin> set sel \<longrightarrow>
        skip_selector sel = (CHR 0x22 \<in> set sel \<or> CHR 0x27 \<in> set sel))
   \<and> (CHR 0x22 \<notin> set sel \<longrightarrow>
        skip_selector sel = (CHR 0x27 \<in> set sel \<and> CHR 0x5C \<notin> set sel))"
proof -
  let ?xs = "get_selectors_for_domain h host"
  have "get_css_for_domain h host = join [CHR 0x0A] (rules_of (batches_of ?xs))"
  proof (cases "?xs = []")
    case True
    then show ?thesis
      by (simp add: get_css_for_domain_def css_of_selectors_def batches_of_def rules_of_def)
  next
    case False
    then show ?thesis
      by (simp add: get_css_for_domain_def css_of_selectors_def css_loop_batches)
  qed
  moreover have "?xs = [] \<longrightarrow> get_css_for_domain h host = []"
    by (simp add: get_css_for_domain_def css_of_selectors_def)
  moreover have "\<forall>b \<in> set (batches_of ?xs). b \<noteq> [] \<and> length b \<le> 100"
    using batches_of_bounds by blast
  ultimately show ?thesis
    by (simp add: rules_of_def concat_batches_of css_rule_def skip_selector_def)
qed

theorem css_for_domain_batches_witness:
  "CHR 0x5C \<notin> set example_attribute_selector
   \<and> skip_selector example_attribute_selector
   \<and> CHR 0x22 \<notin> set example_quoted_selector
   \<and> \<not> skip_selector example_quoted_selector
   \<and> get_css_for_domain (example_cosmetic_handler [''##.ad-banner'', ''##.sponsored''])
        ''example.com''
       = ''.ad-banner, .sponsored { display: none !important; }''"
proof -
  let ?h = "example_cosmetic_handler [''##.ad-banner'', ''##.sponsored'']"
  let ?q = "example_attribute_selector"
  note t = css_for_domain_batches[of ?h "''example.com''" "[]" ?q]
  note u = css_for_domain_batches[of ?h "''example.com''" "[]" example_quoted_selector]
  have h1: "CHR 0x5C \<notin> set ?q" by code_simp
  have h2: "CHR 0x22 \<notin> set example_quoted_selector" by code_simp
  have q1: "CHR 0x22 \<in> set ?q \<or> CHR 0x27 \<in> set ?q" by code_simp
  have q2: "\<not> (CHR 0x27 \<in> set example_quoted_selector \<and> CHR 0x5C \<notin> set example_quoted_selector)"
    by code_simp
  have e: "join [CHR 0x0A]
       (map css_rule
          (filter (\<lambda>b. b \<noteq> [])
             (map (filter (\<lambda>sel. \<not> skip_selector sel))
                (batches_of (get_selectors_for_domain ?h ''example.com'')))))
      = ''.ad-banner, .sponsored { display: none !important; }''"
    by code_simp
  from t h1 q1 have c1: "skip_selector ?q" by blast
  from u h2 q2 have c2: "\<not> skip_selector example_quoted_selector" by blast
  from t e have c3: "get_css_for_domain ?h ''example.com''
       = ''.ad-banner, .sponsored { display: none !important; }''" by simp
  show ?thesis by (intro conjI h1 c1 h2 c2 c3)
qed


section \<open>Scriptlet filters without an included domain\<close>

lemma index_append_all_empty: "index_append_all idx {} f = idx"
  by (rule ext) (simp add: index_append_all_def)

lemma s_add_filter_no_domain:
  "s_domains f = {} \<Longrightarrow> domain_scriptlets (s_add_filter h f) = domain_scriptlets h"
  by (simp add: s_add_filter_def index_append_all_empty)

lemma domain_scriptlets_fold:
  "domain_scriptlets (foldl s_add_filter h fs)
     = foldl (\<lambda>idx f. index_append_all idx (s_domains f) f) (domain_scriptlets h) fs"
  by (induction fs arbitrary: h) (simp_all add: s_add_filter_def)

lemma selected_scriptlets_index:
  "domain_scriptlets h = domain_scriptlets h'
     \<Longrightarrow> selected_scriptlets h host = selected_scriptlets h' host"
  by (simp add: selected_scriptlets_def)

text \<open>
  C7. A scriptlet filter with no included domain is never among the filters that
  \<open>get_scripts_for_domain\<close> builds scripts from, in any state of the handler and for any
  hostname; adding it leaves the index as it was; and the scripts of every hostname are
  the same with the filter anywhere in the added list as without it.
\<close>

theorem scriptlet_without_domain_never_applies:
  assumes "s_domains f = {}"
  shows "f \<notin> set (selected_scriptlets h host)
       \<and> domain_scriptlets (s_add_filter h f) = domain_scriptlets h
       \<and> get_scripts_for_domain SCRIPTLETS (s_add_filters h (before @ f # after)) host
           = get_scripts_for_domain SCRIPTLETS (s_add_filters h (before @ after)) host"
proof -
  have "\<not> s_domain_matches (lower host) (s_domains f) (s_excluded_domains f)"
    using assms by (simp add: s_domain_matches_def Let_def)
  then have a: "f \<notin> set (selected_scriptlets h host)"
    by (simp add: selected_scriptlets_def Let_def)
  have b: "domain_scriptlets (s_add_filter h f) = domain_scriptlets h"
    using assms by (rule s_add_filter_no_domain)
  have "domain_scriptlets (s_add_filters h (before @ f # after))
          = domain_scriptlets (s_add_filters h (before @ after))"
    unfolding s_add_filters_def domain_scriptlets_fold
    using assms by (simp add: index_append_all_empty)
  then have "selected_scriptlets (s_add_filters h (before @ f # after)) host
           = selected_scriptlets (s_add_filters h (before @ after)) host"
    by (rule selected_scriptlets_index)
  then have c: "get_scripts_for_domain SCRIPTLETS (s_add_filters h (before @ f # after)) host
           = get_scripts_for_domain SCRIPTLETS (s_add_filters h (before @ after)) host"
    by (simp only: get_scripts_for_domain_def)
  from a b c show ?thesis by (intro conjI)
qed

theorem scriptlet_without_domain_never_applies_witness:
  "s_domains example_scriptlet_global = {}
   \<and> get_scripts_for_domain example_templates
        (s_add_filters new_scriptlet_handler
           ([] @ example_scriptlet_global # [example_scriptlet_domain])) ''www.example.com''
       = get_scripts_for_domain example_templates
           (s_add_filters new_scriptlet_handler [example_scriptlet_domain]) ''www.example.com''
   \<and> get_scripts_for_domain example_templates
        (s_add_filters new_scriptlet_handler [example_scriptlet_domain]) ''www.example.com''
       = [''((function(prop, value) { }))('' @ [CHR 0x27] @ ''adblock'' @ [CHR 0x27]
            @ '', '' @ [CHR 0x27] @ ''false'' @ [CHR 0x27] @ '');'']"
proof -
  have h: "s_domains example_scriptlet_global = {}"
    by (simp add: example_scriptlet_global_def)
  have e: "get_scripts_for_domain example_templates
        (s_add_filters new_scriptlet_handler [example_scriptlet_domain]) ''www.example.com''
       = [''((function(prop, value) { }))('' @ [CHR 0x27] @ ''adblock'' @ [CHR 0x27]
            @ '', '' @ [CHR 0x27] @ ''false'' @ [CHR 0x27] @ '');'']"
    by code_simp
  note t = scriptlet_without_domain_never_applies[OF h,
      where h = new_scriptlet_handler and host = "''www.example.com''"
        and SCRIPTLETS = example_templates and before = "[]"
        and after = "[example_scriptlet_domain]"]
  from t have c: "get_scripts_for_domain example_templates
        (s_add_filters new_scriptlet_handler
           ([] @ example_scriptlet_global # [example_scriptlet_domain])) ''www.example.com''
       = get_scripts_for_domain example_templates
           (s_add_filters new_scriptlet_handler ([] @ [example_scriptlet_domain]))
           ''www.example.com''"
    by (rule conjunct2[THEN conjunct2])
  have a: "[] @ [example_scriptlet_domain] = [example_scriptlet_domain]"
    by (rule append_Nil)
  show ?thesis by (intro conjI h c[unfolded a] e)
qed


section \<open>Procedural selectors in \<open>parse_cosmetic_filter\<close>\<close>

text \<open>
  What the parser guarantees of a record it returns: the selector is not empty and does
  not start with one of the procedural prefixes.
\<close>

lemma parse_cosmetic_filter_selector:
  "parse_cosmetic_filter line = Some f \<Longrightarrow>
     selector f \<noteq> [] \<and> \<not> list_ex (\<lambda>prefix. startswith (selector f) prefix) procedural_prefixes"
  by (auto simp: parse_cosmetic_filter_def Let_def split: if_splits option.splits)

text \<open>
  C8 at the input \<open>example.com##div:has(.ad)\<close>: the selector holds \<open>:has(\<close> after
  \<open>div\<close>, the test looks at the start of the selector only, and the parser returns a
  record with the procedural selector in it.
\<close>

theorem procedural_selector_not_rejected:
  "parse_cosmetic_filter ''example.com##div:has(.ad)'' =
     Some \<lparr>c_raw = ''example.com##div:has(.ad)'', selector = ''div:has(.ad)'',
            c_is_exception = False, c_domains = {''example.com''},
            c_excluded_domains = {}\<rparr>"
  by code_simp


end
